theory Spec2Isabelle
  imports Main "HOL-Library.Word"
begin

unbundle bit_operations_syntax

section \<open>The management bus and the chip behind it\<close>

text \<open>
  The driver talks to the transceiver through the two kernel primitives
  \<open>phy_read\<close> and \<open>phy_write\<close>.  Neither they nor the chip are part of
  \<open>mars.c\<close>: they are the environment of the driver, and the state below holds the
  chip, the bus, the two file-scope variables of the driver and the fields of
  \<open>struct phy_device\<close> it uses.
\<close>

datatype bank = PRIMARY | SECONDARY

datatype access = Read bank "32 word" | Write bank "32 word" "16 word"

record mars_state =
  \<comment> \<open>the chip\<close>
  latch :: "16 word"
  ext :: "16 word \<Rightarrow> 16 word"
  regs :: "bank \<times> 32 word \<Rightarrow> 16 word"
  \<comment> \<open>the bus: failures to come, transactions that reached the chip\<close>
  faults :: "int list"
  trace :: "access list"
  \<comment> \<open>the two file-scope variables of the later revision\<close>
  g_port_type :: int
  g_port_status :: int
  \<comment> \<open>the fields of \<open>struct phy_device\<close> the driver uses\<close>
  autoneg :: int
  speed :: int
  duplex :: int
  pause :: int
  asym_pause :: int
  link :: int
  supported :: "32 word"
  advertising :: "32 word"
  interrupts :: int
  dev_addr :: "nat \<Rightarrow> 8 word"

definition CTC_MARS_PAGE_REG :: "32 word" where "CTC_MARS_PAGE_REG = 0xa000"
definition CTC_MARS_CHIP_CFG_REG :: "32 word" where "CTC_MARS_CHIP_CFG_REG = 0xa001"

text \<open>
  Modelled from the spec: the page selector of the chip (register-level wire
  contract).  Extended register \<open>0xa000\<close> selects the register space, \<open>0x0\<close> the
  primary and \<open>0x2\<close> the secondary one; the selection is bit 1 of that register.
\<close>

definition cur_bank :: "mars_state \<Rightarrow> bank" where
  "cur_bank s = (if ext s 0xa000 AND 2 = 0 then PRIMARY else SECONDARY)"

text \<open>
  A bus transaction may fail.  The field \<open>faults\<close> is the schedule of the
  transactions still to come: each transaction consumes the head; a negative head is
  the error code that transaction returns, and a failed transaction does not reach
  the chip.  An exhausted schedule means no further failure.
\<close>

definition next_fault :: "int list \<Rightarrow> int" where
  "next_fault fs = (case fs of [] \<Rightarrow> 0 | f # _ \<Rightarrow> f)"

text \<open>
  Modelled from the spec: the kernel's \<open>phy_read\<close> and \<open>phy_write\<close> together with
  the chip that answers them (register-level wire contract).  Register \<open>0x1e\<close> is the
  address latch and register \<open>0x1f\<close> the data window onto the extended register whose
  number is latched; every other directly addressed register exists once per space,
  and an access reaches the space that is selected.  Registers are plain 16-bit
  cells.  A transaction that reaches the chip is appended to \<open>trace\<close>, with the space
  selected at that moment.
\<close>

definition phy_read :: "mars_state \<Rightarrow> 32 word \<Rightarrow> int \<times> mars_state" where
  "phy_read s regnum =
     (let f = next_fault (faults s); s1 = s\<lparr>faults := tl (faults s)\<rparr> in
      if f < 0 then (f, s1)
      else
        let s2 = s1\<lparr>trace := trace s @ [Read (cur_bank s) regnum]\<rparr> in
        if regnum = 0x1e then (uint (latch s), s2)
        else if regnum = 0x1f then (uint (ext s (latch s)), s2)
        else (uint (regs s (cur_bank s, regnum)), s2))"

definition phy_write :: "mars_state \<Rightarrow> 32 word \<Rightarrow> 16 word \<Rightarrow> int \<times> mars_state" where
  "phy_write s regnum val =
     (let f = next_fault (faults s); s1 = s\<lparr>faults := tl (faults s)\<rparr> in
      if f < 0 then (f, s1)
      else
        let s2 = s1\<lparr>trace := trace s @ [Write (cur_bank s) regnum val]\<rparr> in
        if regnum = 0x1e then (0, s2\<lparr>latch := val\<rparr>)
        else if regnum = 0x1f then (0, s2\<lparr>ext := (ext s)(latch s := val)\<rparr>)
        else (0, s2\<lparr>regs := (regs s)((cur_bank s, regnum) := val)\<rparr>))"

section \<open>Indirect register access and space selection\<close>

definition CTC_PHY_REG_SPACE :: int where "CTC_PHY_REG_SPACE = 0"
definition CTC_SDS_REG_SPACE :: int where "CTC_SDS_REG_SPACE = 1"

text \<open>\<open>regnum\<close> is a \<open>u32\<close> handed to the \<open>u16\<close> value parameter of \<open>phy_write\<close>.\<close>

definition mars_ext_read :: "mars_state \<Rightarrow> 32 word \<Rightarrow> int \<times> mars_state" where
  "mars_ext_read s regnum =
     (let (ret, s1) = phy_write s 0x1e (ucast regnum) in
      if ret < 0 then (ret, s1)
      else phy_read s1 0x1f)"

definition mars_ext_write :: "mars_state \<Rightarrow> 32 word \<Rightarrow> 16 word \<Rightarrow> int \<times> mars_state" where
  "mars_ext_write s regnum val =
     (let (ret, s1) = phy_write s 0x1e (ucast regnum) in
      if ret < 0 then (ret, s1)
      else phy_write s1 0x1f val)"

definition mars_select_reg_space :: "mars_state \<Rightarrow> int \<Rightarrow> int \<times> mars_state" where
  "mars_select_reg_space s space =
     (if space = CTC_PHY_REG_SPACE then mars_ext_write s 0xa000 0x0
      else mars_ext_write s 0xa000 0x2)"

text \<open>The later revision brackets every access with a switch and a restore.\<close>

definition mars_page_read :: "mars_state \<Rightarrow> int \<Rightarrow> 32 word \<Rightarrow> int \<times> mars_state" where
  "mars_page_read s page regnum =
     (let (oldpage, s1) = mars_ext_read s CTC_MARS_PAGE_REG in
      if oldpage < 0 then (oldpage, s1)
      else
        let (ret, s2) = mars_select_reg_space s1 page in
        if ret < 0 then (ret, s2)
        else
          let (val, s3) = phy_read s2 regnum;
              (ret, s4) = mars_select_reg_space s3 (oldpage AND 0x2) in
          if ret < 0 then (ret, s4)
          else (val, s4))"

definition mars_page_write ::
  "mars_state \<Rightarrow> int \<Rightarrow> 32 word \<Rightarrow> 16 word \<Rightarrow> int \<times> mars_state" where
  "mars_page_write s page regnum value =
     (let (oldpage, s1) = mars_ext_read s CTC_MARS_PAGE_REG in
      if oldpage < 0 then (oldpage, s1)
      else
        let (ret, s2) = mars_select_reg_space s1 page in
        if ret < 0 then (ret, s2)
        else
          let (val, s3) = phy_write s2 regnum value;
              (ret, s4) = mars_select_reg_space s3 (oldpage AND 0x2) in
          if ret < 0 then (ret, s4)
          else (val, s4))"

definition mars_page_ext_write ::
  "mars_state \<Rightarrow> int \<Rightarrow> 32 word \<Rightarrow> 16 word \<Rightarrow> int \<times> mars_state" where
  "mars_page_ext_write s page regnum value =
     (let (oldpage, s1) = mars_ext_read s CTC_MARS_PAGE_REG in
      if oldpage < 0 then (oldpage, s1)
      else
        let (ret, s2) = mars_select_reg_space s1 page in
        if ret < 0 then (ret, s2)
        else
          let (val, s3) = mars_ext_write s2 regnum value;
              (ret, s4) = mars_select_reg_space s3 (oldpage AND 0x2) in
          if ret < 0 then (ret, s4)
          else (val, s4))"

section \<open>Kernel constants\<close>

text \<open>
  Register numbers and bit masks of \<open>linux/mii.h\<close>, \<open>linux/ethtool.h\<close> and
  \<open>linux/phy.h\<close>, with the values those headers give them.
\<close>

definition MII_BMCR :: "32 word" where "MII_BMCR = 0x00"
definition MII_BMSR :: "32 word" where "MII_BMSR = 0x01"
definition MII_ADVERTISE :: "32 word" where "MII_ADVERTISE = 0x04"
definition MII_LPA :: "32 word" where "MII_LPA = 0x05"
definition MII_CTRL1000 :: "32 word" where "MII_CTRL1000 = 0x09"

definition BMCR_SPEED1000 :: int where "BMCR_SPEED1000 = 0x0040"
definition BMCR_FULLDPLX :: int where "BMCR_FULLDPLX = 0x0100"
definition BMCR_ANRESTART :: int where "BMCR_ANRESTART = 0x0200"
definition BMCR_ISOLATE :: int where "BMCR_ISOLATE = 0x0400"
definition BMCR_PDOWN :: int where "BMCR_PDOWN = 0x0800"
definition BMCR_ANENABLE :: int where "BMCR_ANENABLE = 0x1000"
definition BMCR_SPEED100 :: int where "BMCR_SPEED100 = 0x2000"
definition BMCR_LOOPBACK :: int where "BMCR_LOOPBACK = 0x4000"

definition BMSR_LSTATUS :: int where "BMSR_LSTATUS = 0x0004"
definition BMSR_ESTATEN :: int where "BMSR_ESTATEN = 0x0100"

definition ADVERTISE_10HALF :: int where "ADVERTISE_10HALF = 0x0020"
definition ADVERTISE_10FULL :: int where "ADVERTISE_10FULL = 0x0040"
definition ADVERTISE_100HALF :: int where "ADVERTISE_100HALF = 0x0080"
definition ADVERTISE_100FULL :: int where "ADVERTISE_100FULL = 0x0100"
definition ADVERTISE_100BASE4 :: int where "ADVERTISE_100BASE4 = 0x0200"
definition ADVERTISE_PAUSE_CAP :: int where "ADVERTISE_PAUSE_CAP = 0x0400"
definition ADVERTISE_PAUSE_ASYM :: int where "ADVERTISE_PAUSE_ASYM = 0x0800"
definition ADVERTISE_ALL :: int where
  "ADVERTISE_ALL = ADVERTISE_10HALF OR ADVERTISE_10FULL OR ADVERTISE_100HALF OR ADVERTISE_100FULL"
definition ADVERTISE_1000FULL :: int where "ADVERTISE_1000FULL = 0x0200"
definition ADVERTISE_1000HALF :: int where "ADVERTISE_1000HALF = 0x0100"

definition LPA_PAUSE_CAP :: int where "LPA_PAUSE_CAP = 0x0400"
definition LPA_PAUSE_ASYM :: int where "LPA_PAUSE_ASYM = 0x0800"

definition ADVERTISED_10baseT_Half :: "32 word" where "ADVERTISED_10baseT_Half = push_bit 0 1"
definition ADVERTISED_10baseT_Full :: "32 word" where "ADVERTISED_10baseT_Full = push_bit 1 1"
definition ADVERTISED_100baseT_Half :: "32 word" where "ADVERTISED_100baseT_Half = push_bit 2 1"
definition ADVERTISED_100baseT_Full :: "32 word" where "ADVERTISED_100baseT_Full = push_bit 3 1"
definition ADVERTISED_1000baseT_Half :: "32 word" where "ADVERTISED_1000baseT_Half = push_bit 4 1"
definition ADVERTISED_1000baseT_Full :: "32 word" where "ADVERTISED_1000baseT_Full = push_bit 5 1"
definition ADVERTISED_Pause :: "32 word" where "ADVERTISED_Pause = push_bit 13 1"
definition ADVERTISED_Asym_Pause :: "32 word" where "ADVERTISED_Asym_Pause = push_bit 14 1"
definition SUPPORTED_1000baseT_Half :: "32 word" where "SUPPORTED_1000baseT_Half = push_bit 4 1"
definition SUPPORTED_1000baseT_Full :: "32 word" where "SUPPORTED_1000baseT_Full = push_bit 5 1"

definition SPEED_10 :: int where "SPEED_10 = 10"
definition SPEED_100 :: int where "SPEED_100 = 100"
definition SPEED_1000 :: int where "SPEED_1000 = 1000"
definition DUPLEX_HALF :: int where "DUPLEX_HALF = 0"
definition DUPLEX_FULL :: int where "DUPLEX_FULL = 1"
definition AUTONEG_ENABLE :: int where "AUTONEG_ENABLE = 1"
definition WAKE_MAGIC :: "32 word" where "WAKE_MAGIC = push_bit 5 1"

text \<open>The two inline converters of \<open>linux/mii.h\<close> that \<open>mars_config_advert\<close> calls.\<close>

definition ethtool_adv_to_mii_adv_t :: "32 word \<Rightarrow> int" where
  "ethtool_adv_to_mii_adv_t ethadv =
     (let result = 0;
          result = (if ethadv AND ADVERTISED_10baseT_Half \<noteq> 0
                    then result OR ADVERTISE_10HALF else result);
          result = (if ethadv AND ADVERTISED_10baseT_Full \<noteq> 0
                    then result OR ADVERTISE_10FULL else result);
          result = (if ethadv AND ADVERTISED_100baseT_Half \<noteq> 0
                    then result OR ADVERTISE_100HALF else result);
          result = (if ethadv AND ADVERTISED_100baseT_Full \<noteq> 0
                    then result OR ADVERTISE_100FULL else result);
          result = (if ethadv AND ADVERTISED_Pause \<noteq> 0
                    then result OR ADVERTISE_PAUSE_CAP else result);
          result = (if ethadv AND ADVERTISED_Asym_Pause \<noteq> 0
                    then result OR ADVERTISE_PAUSE_ASYM else result)
      in result)"

definition ethtool_adv_to_mii_ctrl1000_t :: "32 word \<Rightarrow> int" where
  "ethtool_adv_to_mii_ctrl1000_t ethadv =
     (let result = 0;
          result = (if ethadv AND ADVERTISED_1000baseT_Half \<noteq> 0
                    then result OR ADVERTISE_1000HALF else result);
          result = (if ethadv AND ADVERTISED_1000baseT_Full \<noteq> 0
                    then result OR ADVERTISE_1000FULL else result)
      in result)"

section \<open>Driver constants\<close>

definition CTC_PHY_GLB_DISABLE :: int where "CTC_PHY_GLB_DISABLE = 0"
definition CTC_PHY_GLB_ENABLE :: int where "CTC_PHY_GLB_ENABLE = 1"
definition CTC_MARS_SSREG :: "32 word" where "CTC_MARS_SSREG = 0x11"
definition CTC_MARS_INTR_REG :: "32 word" where "CTC_MARS_INTR_REG = 0x12"
definition CTC_MARS_WOL_INTR :: int where "CTC_MARS_WOL_INTR = push_bit 6 1"
definition CTC_MARS_MAGIC_PACKET_MAC_ADDR2 :: "32 word" where
  "CTC_MARS_MAGIC_PACKET_MAC_ADDR2 = 0xa007"
definition CTC_MARS_MAGIC_PACKET_MAC_ADDR1 :: "32 word" where
  "CTC_MARS_MAGIC_PACKET_MAC_ADDR1 = 0xa008"
definition CTC_MARS_MAGIC_PACKET_MAC_ADDR0 :: "32 word" where
  "CTC_MARS_MAGIC_PACKET_MAC_ADDR0 = 0xa009"
definition CTC_MARS_WOL_CFG_REG :: "32 word" where "CTC_MARS_WOL_CFG_REG = 0xa00a"
definition CTC_MARS_WOL_TYPE :: int where "CTC_MARS_WOL_TYPE = push_bit 0 1"
definition CTC_MARS_WOL_EN :: int where "CTC_MARS_WOL_EN = push_bit 3 1"
definition CTC_MARS_WOL_INTR_SEL :: int where "CTC_MARS_WOL_INTR_SEL = push_bit 6 1"
definition CTC_MARS_WOL_WIDTH1 :: int where "CTC_MARS_WOL_WIDTH1 = push_bit 1 1"
definition CTC_MARS_WOL_WIDTH2 :: int where "CTC_MARS_WOL_WIDTH2 = push_bit 2 1"

text \<open>\<open>enum mars_port_type_e\<close>; the two variables holding it are plain \<open>int\<close>s.\<close>

definition MARS_PORT_TYPE_UTP :: int where "MARS_PORT_TYPE_UTP = 0"
definition MARS_PORT_TYPE_FIBER :: int where "MARS_PORT_TYPE_FIBER = 1"
definition MARS_PORT_TYPE_COMBO :: int where "MARS_PORT_TYPE_COMBO = 2"

text \<open>\<open>enum mars_wol_type_e\<close> and \<open>enum mars_wol_width_e\<close>, stored in \<open>int\<close> fields.\<close>

definition MARS_WOL_TYPE_LEVEL :: int where "MARS_WOL_TYPE_LEVEL = 0"
definition MARS_WOL_TYPE_PULSE :: int where "MARS_WOL_TYPE_PULSE = 1"
definition MARS_WOL_TYPE_MAX :: int where "MARS_WOL_TYPE_MAX = 2"
definition MARS_WOL_WIDTH_84MS :: int where "MARS_WOL_WIDTH_84MS = 0"
definition MARS_WOL_WIDTH_168MS :: int where "MARS_WOL_WIDTH_168MS = 1"
definition MARS_WOL_WIDTH_336MS :: int where "MARS_WOL_WIDTH_336MS = 2"
definition MARS_WOL_WIDTH_672MS :: int where "MARS_WOL_WIDTH_672MS = 3"
definition MARS_WOL_WIDTH_MAX :: int where "MARS_WOL_WIDTH_MAX = 4"

record mars_wol_cfg_t =
  enable :: int
  type :: int
  width :: int

text \<open>The two fields of \<open>struct ethtool_wolinfo\<close> the driver touches.\<close>

record ethtool_wolinfo =
  wol_supported :: "32 word"
  wolopts :: "32 word"

section \<open>Forced mode, autonegotiation and advertisement (later revision)\<close>

definition mars_setup_forced :: "mars_state \<Rightarrow> int \<times> mars_state" where
  "mars_setup_forced s =
     (let (r1, s1) =
        (if g_port_type s = MARS_PORT_TYPE_UTP \<or> g_port_type s = MARS_PORT_TYPE_COMBO then
           let (ctl, s1) = mars_page_read s CTC_PHY_REG_SPACE MII_BMCR in
           if ctl < 0 then (Some ctl, s1)
           else
             let ctl = ctl AND (BMCR_LOOPBACK OR BMCR_ISOLATE OR BMCR_PDOWN);
                 s2 = s1\<lparr>pause := 0, asym_pause := 0\<rparr>;
                 ctl = (if speed s2 = SPEED_1000 then ctl OR BMCR_SPEED1000
                        else if speed s2 = SPEED_100 then ctl OR BMCR_SPEED100
                        else ctl);
                 ctl = (if duplex s2 = DUPLEX_FULL then ctl OR BMCR_FULLDPLX else ctl);
                 (ret, s3) = mars_page_write s2 CTC_PHY_REG_SPACE MII_BMCR (word_of_int ctl)
             in if ret < 0 then (Some ret, s3) else (None, s3)
         else (None, s))
      in case r1 of
        Some e \<Rightarrow> (e, s1)
      | None \<Rightarrow>
         (if g_port_type s1 = MARS_PORT_TYPE_FIBER \<or> g_port_type s1 = MARS_PORT_TYPE_COMBO then
            let (ctl, s2) = mars_page_read s1 CTC_SDS_REG_SPACE MII_BMCR in
            if ctl < 0 then (ctl, s2)
            else
              let ctl = ctl AND NOT BMCR_ANENABLE;
                  (ret, s3) = mars_page_write s2 CTC_SDS_REG_SPACE MII_BMCR (word_of_int ctl)
              in if ret < 0 then (ret, s3) else (0, s3)
          else (0, s1)))"

definition mars_restart_aneg :: "mars_state \<Rightarrow> int \<times> mars_state" where
  "mars_restart_aneg s =
     (let (r1, s1) =
        (if g_port_type s = MARS_PORT_TYPE_UTP \<or> g_port_type s = MARS_PORT_TYPE_COMBO then
           let (ctl, s1) = mars_page_read s CTC_PHY_REG_SPACE MII_BMCR in
           if ctl < 0 then (Some ctl, s1)
           else
             let ctl = ctl OR (BMCR_ANENABLE OR BMCR_ANRESTART);
                 ctl = ctl AND NOT BMCR_ISOLATE;
                 (ret, s2) = mars_page_write s1 CTC_PHY_REG_SPACE MII_BMCR (word_of_int ctl)
             in if ret < 0 then (Some ret, s2) else (None, s2)
         else (None, s))
      in case r1 of
        Some e \<Rightarrow> (e, s1)
      | None \<Rightarrow>
         (if g_port_type s1 = MARS_PORT_TYPE_FIBER \<or> g_port_type s1 = MARS_PORT_TYPE_COMBO then
            let (ctl, s2) = mars_page_read s1 CTC_SDS_REG_SPACE MII_BMCR in
            if ctl < 0 then (ctl, s2)
            else
              let ctl = ctl OR BMCR_ANENABLE;
                  (ret, s3) = mars_page_write s2 CTC_SDS_REG_SPACE MII_BMCR (word_of_int ctl)
              in if ret < 0 then (ret, s3) else (0, s3)
          else (0, s1)))"

text \<open>
  \<open>mars_config_advert\<close> is modelled on its legacy branch, where the link modes
  are \<open>u32\<close> masks; the other branch converts its bitmaps to the same masks before
  it uses them.
\<close>

definition mars_config_advert :: "mars_state \<Rightarrow> int \<times> mars_state" where
  "mars_config_advert s =
     (let s0 = s\<lparr>advertising := advertising s AND supported s\<rparr>;
          advertise = advertising s0;
          (adv, s1) = mars_page_read s0 CTC_PHY_REG_SPACE MII_ADVERTISE in
      if adv < 0 then (adv, s1)
      else
        let oldadv = adv;
            adv = adv AND NOT (ADVERTISE_ALL OR ADVERTISE_100BASE4 OR ADVERTISE_PAUSE_CAP OR
                               ADVERTISE_PAUSE_ASYM);
            adv = adv OR ethtool_adv_to_mii_adv_t advertise;
            (w1, changed, s2) =
              (if adv \<noteq> oldadv then
                 let (err, s2) = mars_page_write s1 CTC_PHY_REG_SPACE MII_ADVERTISE
                                   (word_of_int adv)
                 in if err < 0 then (Some err, 0, s2) else (None, 1, s2)
               else (None, 0, s1))
        in case w1 of
          Some e \<Rightarrow> (e, s2)
        | None \<Rightarrow>
           (let (bmsr, s3) = mars_page_read s2 CTC_PHY_REG_SPACE MII_BMSR in
            if bmsr < 0 then (bmsr, s3)
            else if bmsr AND BMSR_ESTATEN = 0 then (changed, s3)
            else
              let (adv, s4) = mars_page_read s3 CTC_PHY_REG_SPACE MII_CTRL1000 in
              if adv < 0 then (adv, s4)
              else
                let oldadv = adv;
                    adv = adv AND NOT (ADVERTISE_1000FULL OR ADVERTISE_1000HALF);
                    adv = (if supported s4 AND
                                (SUPPORTED_1000baseT_Half OR SUPPORTED_1000baseT_Full) \<noteq> 0
                           then adv OR ethtool_adv_to_mii_ctrl1000_t advertise else adv);
                    changed = (if adv \<noteq> oldadv then 1 else changed);
                    (err, s5) = mars_page_write s4 CTC_PHY_REG_SPACE MII_CTRL1000
                                  (word_of_int adv)
                in if err < 0 then (err, s5) else (changed, s5)))"

definition mars1s_config_aneg :: "mars_state \<Rightarrow> int \<times> mars_state" where
  "mars1s_config_aneg s =
     (let (r1, s1) =
        (if g_port_type s = MARS_PORT_TYPE_UTP \<or> g_port_type s = MARS_PORT_TYPE_COMBO then
           let (ret, s1) = (if autoneg s \<noteq> AUTONEG_ENABLE then mars_setup_forced s
                            else (0, s)) in
           if ret < 0 then (Some ret, s1)
           else
             let (err, s2) = mars_config_advert s1 in
             if err < 0 then (Some err, s2)
             else
               let changed = 0 OR err;
                   (c1, changed, s3) =
                     (if changed = 0 then
                        let (ctl, s3) = mars_page_read s2 CTC_PHY_REG_SPACE MII_BMCR in
                        if ctl < 0 then (Some ctl, changed, s3)
                        else if ctl AND BMCR_ANENABLE = 0 \<or> ctl AND BMCR_ISOLATE \<noteq> 0
                        then (None, 1, s3)
                        else (None, changed, s3)
                      else (None, changed, s2))
               in case c1 of
                 Some e \<Rightarrow> (Some e, s3)
               | None \<Rightarrow>
                  (let (ret, s4) = (if changed > 0 then mars_restart_aneg s3 else (ret, s3))
                   in if ret < 0 then (Some ret, s4) else (None, s4))
         else (None, s))
      in case r1 of
        Some e \<Rightarrow> (e, s1)
      | None \<Rightarrow>
         (if g_port_type s1 = MARS_PORT_TYPE_FIBER \<or> g_port_type s1 = MARS_PORT_TYPE_COMBO then
            if autoneg s1 \<noteq> AUTONEG_ENABLE then mars_setup_forced s1
            else
              let (ret, s2) = mars_restart_aneg s1 in
              if ret < 0 then (ret, s2) else (0, s2)
          else (0, s1)))"

section \<open>Link polling and status (later revision)\<close>

definition mars_update_link :: "mars_state \<Rightarrow> int \<times> mars_state" where
  "mars_update_link s =
     (let (r1, s1) =
        (if g_port_type s = MARS_PORT_TYPE_UTP \<or> g_port_type s = MARS_PORT_TYPE_COMBO then
           let (status, s1) = mars_page_read s CTC_PHY_REG_SPACE MII_BMSR in
           if status < 0 then (Some status, s1)
           else
             let (status, s2) = mars_page_read s1 CTC_PHY_REG_SPACE MII_BMSR in
             if status < 0 then (Some status, s2)
             else if status AND BMSR_LSTATUS = 0 then (None, s2\<lparr>link := 0\<rparr>)
             else
               let s3 = s2\<lparr>link := 1\<rparr>;
                   (ret, s4) = mars_select_reg_space s3 CTC_PHY_REG_SPACE in
               if ret < 0 then (Some ret, s4)
               else (Some 0, s4\<lparr>g_port_status := MARS_PORT_TYPE_UTP\<rparr>)
         else (None, s))
      in case r1 of
        Some e \<Rightarrow> (e, s1)
      | None \<Rightarrow>
         (if g_port_type s1 = MARS_PORT_TYPE_FIBER \<or> g_port_type s1 = MARS_PORT_TYPE_COMBO then
            let (status, s2) = mars_page_read s1 CTC_SDS_REG_SPACE MII_BMSR in
            if status < 0 then (status, s2)
            else
              let (status, s3) = mars_page_read s2 CTC_SDS_REG_SPACE MII_BMSR in
              if status < 0 then (status, s3)
              else if status AND BMSR_LSTATUS = 0 then (0, s3\<lparr>link := 0\<rparr>)
              else
                let s4 = s3\<lparr>link := 1\<rparr>;
                    (ret, s5) = mars_select_reg_space s4 CTC_SDS_REG_SPACE in
                if ret < 0 then (ret, s5)
                else (0, s5\<lparr>g_port_status := MARS_PORT_TYPE_FIBER\<rparr>)
          else (0, s1)))"

definition mars_read_status :: "mars_state \<Rightarrow> int \<times> mars_state" where
  "mars_read_status s =
     (let (ret, s1) = mars_update_link s in
      if ret < 0 then (ret, s1)
      else
        let page = (if g_port_status s1 \<noteq> 0 then CTC_SDS_REG_SPACE else CTC_PHY_REG_SPACE);
            s2 = s1\<lparr>speed := SPEED_10, duplex := DUPLEX_HALF, pause := 0, asym_pause := 0\<rparr>;
            (val, s3) = mars_page_read s2 page CTC_MARS_SSREG in
        if val < 0 then (val, s3)
        else
          let (lpa, s4) = mars_page_read s3 page MII_LPA in
          if lpa < 0 then (lpa, s4)
          else
            let s5 = (if val AND 0x8000 \<noteq> 0
                      then s4\<lparr>speed := SPEED_1000, duplex := DUPLEX_FULL\<rparr>
                      else if val AND 0x4000 \<noteq> 0 then
                        (let s5 = s4\<lparr>speed := SPEED_100\<rparr> in
                         if val AND 0x2000 \<noteq> 0 then s5\<lparr>duplex := DUPLEX_FULL\<rparr> else s5)
                      else if val AND 0x2000 \<noteq> 0 then s4\<lparr>duplex := DUPLEX_FULL\<rparr>
                      else s4);
                s6 = (if duplex s5 = DUPLEX_FULL
                      then s5\<lparr>pause := (if lpa AND LPA_PAUSE_CAP \<noteq> 0 then 1 else 0),
                              asym_pause := (if lpa AND LPA_PAUSE_ASYM \<noteq> 0 then 1 else 0)\<rparr>
                      else s5)
            in (0, s6))"

text \<open>
  The earlier revision polls the link with the kernel's \<open>genphy_update_link\<close>, which
  is a parameter here, and reads both registers in whatever space is selected.
\<close>

definition mars_read_status_v1 ::
  "(mars_state \<Rightarrow> int \<times> mars_state) \<Rightarrow> mars_state \<Rightarrow> int \<times> mars_state" where
  "mars_read_status_v1 genphy_update_link s =
     (let (err, s1) = genphy_update_link s in
      if err \<noteq> 0 then (err, s1)
      else
        let s2 = s1\<lparr>speed := SPEED_10, duplex := DUPLEX_HALF, pause := 0, asym_pause := 0\<rparr>;
            (val, s3) = phy_read s2 CTC_MARS_SSREG in
        if val < 0 then (val, s3)
        else
          let (lpa, s4) = phy_read s3 MII_LPA in
          if lpa < 0 then (lpa, s4)
          else
            let s5 = (if val AND 0x8000 \<noteq> 0
                      then s4\<lparr>speed := SPEED_1000, duplex := DUPLEX_FULL\<rparr>
                      else if val AND 0x4000 \<noteq> 0 then
                        (let s5 = s4\<lparr>speed := SPEED_100\<rparr> in
                         if val AND 0x2000 \<noteq> 0 then s5\<lparr>duplex := DUPLEX_FULL\<rparr> else s5)
                      else if val AND 0x2000 \<noteq> 0 then s4\<lparr>duplex := DUPLEX_FULL\<rparr>
                      else s4);
                s6 = (if duplex s5 = DUPLEX_FULL
                      then s5\<lparr>pause := (if lpa AND LPA_PAUSE_CAP \<noteq> 0 then 1 else 0),
                              asym_pause := (if lpa AND LPA_PAUSE_ASYM \<noteq> 0 then 1 else 0)\<rparr>
                      else s5)
            in (0, s6))"

section \<open>Wake-on-LAN\<close>

text \<open>\<open>mars_wol_en_cfg\<close> is the same in both revisions.\<close>

definition mars_wol_en_cfg :: "mars_state \<Rightarrow> mars_wol_cfg_t \<Rightarrow> int \<times> mars_state" where
  "mars_wol_en_cfg s wol_cfg =
     (let (val, s1) = mars_ext_read s CTC_MARS_WOL_CFG_REG in
      if val < 0 then (val, s1)
      else
        let val =
              (if enable wol_cfg \<noteq> 0 then
                 let val = val OR CTC_MARS_WOL_EN in
                 if type wol_cfg = MARS_WOL_TYPE_LEVEL then
                   let val = val AND NOT CTC_MARS_WOL_TYPE;
                       val = val AND NOT CTC_MARS_WOL_INTR_SEL
                   in val
                 else if type wol_cfg = MARS_WOL_TYPE_PULSE then
                   let val = val OR CTC_MARS_WOL_TYPE;
                       val = val OR CTC_MARS_WOL_INTR_SEL
                   in
                     if width wol_cfg = MARS_WOL_WIDTH_84MS then
                       (val AND NOT CTC_MARS_WOL_WIDTH1) AND NOT CTC_MARS_WOL_WIDTH2
                     else if width wol_cfg = MARS_WOL_WIDTH_168MS then
                       (val OR CTC_MARS_WOL_WIDTH1) AND NOT CTC_MARS_WOL_WIDTH2
                     else if width wol_cfg = MARS_WOL_WIDTH_336MS then
                       (val AND NOT CTC_MARS_WOL_WIDTH1) OR CTC_MARS_WOL_WIDTH2
                     else if width wol_cfg = MARS_WOL_WIDTH_672MS then
                       (val OR CTC_MARS_WOL_WIDTH1) OR CTC_MARS_WOL_WIDTH2
                     else val
                 else val
               else
                 let val = val AND NOT CTC_MARS_WOL_EN;
                     val = val AND NOT CTC_MARS_WOL_INTR_SEL
                 in val);
            (ret, s2) = mars_ext_write s1 CTC_MARS_WOL_CFG_REG (word_of_int val)
        in if ret < 0 then (ret, s2) else (0, s2))"

text \<open>\<open>mars_get_wol\<close> returns \<open>void\<close>: its only result is the \<open>wol\<close> structure.\<close>

definition mars_get_wol ::
  "mars_state \<Rightarrow> ethtool_wolinfo \<Rightarrow> ethtool_wolinfo \<times> mars_state" where
  "mars_get_wol s wol =
     (let wol = wol\<lparr>wol_supported := WAKE_MAGIC\<rparr>;
          wol = wol\<lparr>wolopts := 0\<rparr>;
          (val, s1) = mars_ext_read s CTC_MARS_WOL_CFG_REG in
      if val < 0 then (wol, s1)
      else if val AND CTC_MARS_WOL_EN \<noteq> 0
      then (wol\<lparr>wolopts := wolopts wol OR WAKE_MAGIC\<rparr>, s1)
      else (wol, s1))"

text \<open>
  Storing the six address bytes: each \<open>unsigned char\<close> is promoted to \<open>int\<close> before
  the shift, and the result is handed to the \<open>u16\<close> parameter of \<open>mars_ext_write\<close>.
\<close>

definition mars_set_wol :: "mars_state \<Rightarrow> ethtool_wolinfo \<Rightarrow> int \<times> mars_state" where
  "mars_set_wol s wol =
     (if wolopts wol AND WAKE_MAGIC \<noteq> 0 then
        let (val, s1) = mars_page_read s CTC_PHY_REG_SPACE CTC_MARS_INTR_REG;
            val = val OR CTC_MARS_WOL_INTR;
            (ret, s2) = mars_page_write s1 CTC_PHY_REG_SPACE CTC_MARS_INTR_REG (word_of_int val)
        in
        if ret < 0 then (ret, s2)
        else
          let wol_cfg = \<lparr>enable = CTC_PHY_GLB_ENABLE, type = MARS_WOL_TYPE_PULSE,
                         width = MARS_WOL_WIDTH_672MS\<rparr>;
              (ret, s3) = mars_wol_en_cfg s2 wol_cfg in
          if ret < 0 then (ret, s3)
          else
            let (ret, s4) = mars_ext_write s3 CTC_MARS_MAGIC_PACKET_MAC_ADDR2
                  (word_of_int (push_bit 8 (uint (dev_addr s3 0)) OR uint (dev_addr s3 1))) in
            if ret < 0 then (ret, s4)
            else
              let (ret, s5) = mars_ext_write s4 CTC_MARS_MAGIC_PACKET_MAC_ADDR1
                    (word_of_int (push_bit 8 (uint (dev_addr s4 2)) OR uint (dev_addr s4 3))) in
              if ret < 0 then (ret, s5)
              else
                let (ret, s6) = mars_ext_write s5 CTC_MARS_MAGIC_PACKET_MAC_ADDR0
                      (word_of_int (push_bit 8 (uint (dev_addr s5 4)) OR uint (dev_addr s5 5))) in
                if ret < 0 then (ret, s6)
                else (0, s6)
      else
        let wol_cfg = \<lparr>enable = CTC_PHY_GLB_DISABLE, type = MARS_WOL_TYPE_MAX,
                       width = MARS_WOL_WIDTH_MAX\<rparr>;
            (ret, s1) = mars_wol_en_cfg s wol_cfg in
        if ret < 0 then (ret, s1)
        else (0, s1))"

text \<open>
  The earlier revision of \<open>mars_set_wol\<close> switches the space itself: it reads the page
  register, selects the PHY space, works with plain bus accesses and restores at the end.
\<close>

definition mars_set_wol_v1 :: "mars_state \<Rightarrow> ethtool_wolinfo \<Rightarrow> int \<times> mars_state" where
  "mars_set_wol_v1 s wol =
     (let (oldpage, s1) = mars_ext_read s CTC_MARS_PAGE_REG in
      if oldpage < 0 then (oldpage, s1)
      else
        let (ret, s2) = mars_select_reg_space s1 CTC_PHY_REG_SPACE in
        if ret < 0 then (ret, s2)
        else
          let (r1, s3) =
            (if wolopts wol AND WAKE_MAGIC \<noteq> 0 then
               let (val, s3) = phy_read s2 CTC_MARS_INTR_REG;
                   val = val OR CTC_MARS_WOL_INTR;
                   (ret, s4) = phy_write s3 CTC_MARS_INTR_REG (word_of_int val)
               in
               if ret < 0 then (Some ret, s4)
               else
                 let wol_cfg = \<lparr>enable = CTC_PHY_GLB_ENABLE, type = MARS_WOL_TYPE_PULSE,
                                width = MARS_WOL_WIDTH_672MS\<rparr>;
                     (ret, s5) = mars_wol_en_cfg s4 wol_cfg in
                 if ret < 0 then (Some ret, s5)
                 else
                   let (ret, s6) = mars_ext_write s5 CTC_MARS_MAGIC_PACKET_MAC_ADDR2
                         (word_of_int (push_bit 8 (uint (dev_addr s5 0)) OR
                                       uint (dev_addr s5 1))) in
                   if ret < 0 then (Some ret, s6)
                   else
                     let (ret, s7) = mars_ext_write s6 CTC_MARS_MAGIC_PACKET_MAC_ADDR1
                           (word_of_int (push_bit 8 (uint (dev_addr s6 2)) OR
                                         uint (dev_addr s6 3))) in
                     if ret < 0 then (Some ret, s7)
                     else
                       let (ret, s8) = mars_ext_write s7 CTC_MARS_MAGIC_PACKET_MAC_ADDR0
                             (word_of_int (push_bit 8 (uint (dev_addr s7 4)) OR
                                           uint (dev_addr s7 5))) in
                       if ret < 0 then (Some ret, s8)
                       else (None, s8)
             else
               let wol_cfg = \<lparr>enable = CTC_PHY_GLB_DISABLE, type = MARS_WOL_TYPE_MAX,
                              width = MARS_WOL_WIDTH_MAX\<rparr>;
                   (ret, s3) = mars_wol_en_cfg s2 wol_cfg in
               if ret < 0 then (Some ret, s3)
               else (None, s3))
          in case r1 of
            Some e \<Rightarrow> (e, s3)
          | None \<Rightarrow>
             (let (ret, s4) = mars_select_reg_space s3 (oldpage AND 0x1) in
              if ret < 0 then (ret, s4)
              else (0, s4)))"

section \<open>Port type\<close>

definition mars_get_port_type :: "mars_state \<Rightarrow> int \<times> mars_state" where
  "mars_get_port_type s =
     (let (val, s1) = mars_ext_read s CTC_MARS_CHIP_CFG_REG in
      if val < 0 then (val, s1)
      else
        let val = val AND 0x7 in
        if val = 0x0 \<or> val = 0x3 then
          (0, s1\<lparr>g_port_type := MARS_PORT_TYPE_UTP, g_port_status := MARS_PORT_TYPE_UTP\<rparr>)
        else if val = 0x1 \<or> val = 0x4 \<or> val = 0x5 then
          (0, s1\<lparr>g_port_type := MARS_PORT_TYPE_FIBER, g_port_status := MARS_PORT_TYPE_FIBER\<rparr>)
        else
          (0, s1\<lparr>g_port_type := MARS_PORT_TYPE_COMBO\<rparr>))"

section \<open>Bus schedules\<close>

text \<open>\<open>bus_ok n fs\<close>: none of the next \<open>n\<close> transactions fails.\<close>

fun bus_ok :: "nat \<Rightarrow> int list \<Rightarrow> bool" where
  "bus_ok 0 fs = True"
| "bus_ok (Suc n) fs = (0 \<le> next_fault fs \<and> bus_ok n (tl fs))"

section \<open>Concrete chips used in the worked examples\<close>

text \<open>A chip with every register zero (so the primary space selected) and a quiet bus.\<close>

definition chip0 :: mars_state where
  "chip0 = \<lparr>latch = 0, ext = (\<lambda>_. 0), regs = (\<lambda>_. 0), faults = [], trace = [],
     g_port_type = 0, g_port_status = 0, autoneg = 1, speed = 0, duplex = 0, pause = 0,
     asym_pause = 0, link = 0, supported = 0, advertising = 0, interrupts = 0,
     dev_addr = (\<lambda>_. 0)\<rparr>"

text \<open>The same chip with the secondary space selected.\<close>

definition chip_sds :: mars_state where
  "chip_sds = chip0\<lparr>ext := (ext chip0)(0xa000 := 0x2)\<rparr>"

text \<open>Seven bus transactions of which the sixth, the first write of a restore, fails.\<close>

definition chip_restore_fails :: mars_state where
  "chip_restore_fails = chip0\<lparr>faults := [0, 0, 0, 0, 0, - 5]\<rparr>"

text \<open>The chip of the scenario "chip configuration register = 0x1".\<close>

definition chip_cfg_fiber :: mars_state where
  "chip_cfg_fiber = chip0\<lparr>ext := (ext chip0)(0xa001 := 0x1)\<rparr>"

text \<open>A chip whose WOL configuration register holds \<open>0xffb0\<close>: every WOL bit clear,
  every other bit set.\<close>

definition chip_wol_clear :: mars_state where
  "chip_wol_clear = chip0\<lparr>ext := (ext chip0)(0xa00a := 0xffb0)\<rparr>"

text \<open>A chip whose WOL configuration register holds \<open>0x4f\<close>: enabled, pulse, 672 ms.\<close>

definition chip_wol_armed :: mars_state where
  "chip_wol_armed = chip0\<lparr>ext := (ext chip0)(0xa00a := 0x4f)\<rparr>"

definition cfg_pulse_672 :: mars_wol_cfg_t where
  "cfg_pulse_672 = \<lparr>enable = CTC_PHY_GLB_ENABLE, type = MARS_WOL_TYPE_PULSE,
                     width = MARS_WOL_WIDTH_672MS\<rparr>"

definition cfg_off :: mars_wol_cfg_t where
  "cfg_off = \<lparr>enable = CTC_PHY_GLB_DISABLE, type = MARS_WOL_TYPE_MAX,
               width = MARS_WOL_WIDTH_MAX\<rparr>"

text \<open>A chip attached to the device with hardware address \<open>AA:BB:CC:DD:EE:FF\<close>.\<close>

definition chip_mac :: mars_state where
  "chip_mac = chip0\<lparr>dev_addr := (\<lambda>_. 0)(0 := 0xAA, 1 := 0xBB, 2 := 0xCC, 3 := 0xDD,
                                          4 := 0xEE, 5 := 0xFF)\<rparr>"

definition wol_magic :: ethtool_wolinfo where
  "wol_magic = \<lparr>wol_supported = 0, wolopts = WAKE_MAGIC\<rparr>"

section \<open>Vocabulary of the statements\<close>

text \<open>What a \<open>page\<close> argument of \<open>mars_select_reg_space\<close> writes and selects.\<close>

definition page_val :: "int \<Rightarrow> 16 word" where
  "page_val page = (if page = 0 then 0 else 2)"

definition page_bank :: "int \<Rightarrow> bank" where
  "page_bank page = (if page = 0 then PRIMARY else SECONDARY)"

text \<open>The bits of the WOL configuration register that belong to Wake-on-LAN:
  type (0), the two width bits (1, 2), enable (3) and interrupt select (6).\<close>

definition wol_related_bits :: "nat set" where
  "wol_related_bits = {0, 1, 2, 3, 6}"

text \<open>The value \<open>mars_wol_en_cfg\<close> computes between its read and its write.\<close>

definition wol_cfg_val :: "int \<Rightarrow> mars_wol_cfg_t \<Rightarrow> int" where
  "wol_cfg_val val wol_cfg =
     (if enable wol_cfg \<noteq> 0 then
        let val = val OR CTC_MARS_WOL_EN in
        if type wol_cfg = MARS_WOL_TYPE_LEVEL then
          let val = val AND NOT CTC_MARS_WOL_TYPE;
              val = val AND NOT CTC_MARS_WOL_INTR_SEL
          in val
        else if type wol_cfg = MARS_WOL_TYPE_PULSE then
          let val = val OR CTC_MARS_WOL_TYPE;
              val = val OR CTC_MARS_WOL_INTR_SEL
          in
            if width wol_cfg = MARS_WOL_WIDTH_84MS then
              (val AND NOT CTC_MARS_WOL_WIDTH1) AND NOT CTC_MARS_WOL_WIDTH2
            else if width wol_cfg = MARS_WOL_WIDTH_168MS then
              (val OR CTC_MARS_WOL_WIDTH1) AND NOT CTC_MARS_WOL_WIDTH2
            else if width wol_cfg = MARS_WOL_WIDTH_336MS then
              (val AND NOT CTC_MARS_WOL_WIDTH1) OR CTC_MARS_WOL_WIDTH2
            else if width wol_cfg = MARS_WOL_WIDTH_672MS then
              (val OR CTC_MARS_WOL_WIDTH1) OR CTC_MARS_WOL_WIDTH2
            else val
        else val
      else
        let val = val AND NOT CTC_MARS_WOL_EN;
            val = val AND NOT CTC_MARS_WOL_INTR_SEL
        in val)"

text \<open>
  The reading of \<open>mars_wol_en_cfg\<close> in the specification text, for comparison: all
  WOL-related bits are cleared first, whatever the configuration, and then the bits the
  configuration asks for are set.
\<close>

definition wol_cfg_clear_then_set :: "int \<Rightarrow> mars_wol_cfg_t \<Rightarrow> int" where
  "wol_cfg_clear_then_set val wol_cfg =
     (let val = val AND NOT (CTC_MARS_WOL_EN OR CTC_MARS_WOL_TYPE OR CTC_MARS_WOL_WIDTH1 OR
                             CTC_MARS_WOL_WIDTH2 OR CTC_MARS_WOL_INTR_SEL);
          val = (if enable wol_cfg \<noteq> 0 then val OR CTC_MARS_WOL_EN else val);
          val = (if enable wol_cfg \<noteq> 0 \<and> type wol_cfg = MARS_WOL_TYPE_PULSE
                 then val OR CTC_MARS_WOL_TYPE OR CTC_MARS_WOL_INTR_SEL else val);
          val = (if enable wol_cfg \<noteq> 0 \<and> type wol_cfg = MARS_WOL_TYPE_PULSE \<and>
                    (width wol_cfg = MARS_WOL_WIDTH_168MS \<or> width wol_cfg = MARS_WOL_WIDTH_672MS)
                 then val OR CTC_MARS_WOL_WIDTH1 else val);
          val = (if enable wol_cfg \<noteq> 0 \<and> type wol_cfg = MARS_WOL_TYPE_PULSE \<and>
                    (width wol_cfg = MARS_WOL_WIDTH_336MS \<or> width wol_cfg = MARS_WOL_WIDTH_672MS)
                 then val OR CTC_MARS_WOL_WIDTH2 else val)
      in val)"

text \<open>The bus accesses made between two states.\<close>

definition new_accesses :: "mars_state \<Rightarrow> mars_state \<Rightarrow> access list" where
  "new_accesses s s' = drop (length (trace s)) (trace s')"

text \<open>
  The decoding of the chip status value \<open>val\<close> and the link-partner ability \<open>lpa\<close>
  as the specification words it: bit 15 gives 1000 and full duplex; otherwise bit 14
  gives 100 and bit 13 decides the duplex; otherwise the speed is 10 and bit 13
  decides the duplex; pause and asymmetric pause come from bits 10 and 11 of \<open>lpa\<close>
  when the duplex is full and are 0 otherwise.
\<close>

definition status_decoded :: "int \<Rightarrow> int \<Rightarrow> mars_state \<Rightarrow> bool" where
  "status_decoded val lpa s' =
     ((if bit val 15 then speed s' = SPEED_1000 \<and> duplex s' = DUPLEX_FULL
       else if bit val 14 then
         speed s' = SPEED_100 \<and> duplex s' = (if bit val 13 then DUPLEX_FULL else DUPLEX_HALF)
       else speed s' = SPEED_10 \<and> duplex s' = (if bit val 13 then DUPLEX_FULL else DUPLEX_HALF)) \<and>
      (if duplex s' = DUPLEX_FULL
       then pause s' = (if bit lpa 10 then 1 else 0) \<and>
            asym_pause s' = (if bit lpa 11 then 1 else 0)
       else pause s' = 0 \<and> asym_pause s' = 0))"

text \<open>
  A combo port with both links up: the secondary space is selected and the active
  medium is FIBER from an earlier poll; the copper side reports 1000 (bit 15 set, bit
  13 clear) and a partner with symmetric pause, the fiber side 100 full.
\<close>

definition combo_both_up :: mars_state where
  "combo_both_up = chip0\<lparr>g_port_type := MARS_PORT_TYPE_COMBO,
      g_port_status := MARS_PORT_TYPE_FIBER,
      ext := (ext chip0)(0xa000 := 0x2),
      regs := (regs chip0)((PRIMARY, 0x01) := 0x0004, (SECONDARY, 0x01) := 0x0004,
                           (PRIMARY, 0x11) := 0x8000, (PRIMARY, 0x05) := 0x0400,
                           (SECONDARY, 0x11) := 0x6000, (SECONDARY, 0x05) := 0x0800)\<rparr>"

text \<open>A link poll that always finds the link up, standing in for the kernel's.\<close>

definition link_always_up :: "mars_state \<Rightarrow> int \<times> mars_state" where
  "link_always_up s = (0, s\<lparr>link := 1\<rparr>)"

text \<open>
  A copper port asked for forced 100 Mbit/s full duplex: autonegotiation is on in the
  chip (\<open>BMCR = 0x1000\<close>), the chip has extended status (\<open>BMSR = 0x7949\<close>), and both
  advertisement registers already hold what the driver would write.
\<close>

definition utp_forced :: mars_state where
  "utp_forced = chip0\<lparr>g_port_type := MARS_PORT_TYPE_UTP, autoneg := 0,
      speed := SPEED_100, duplex := DUPLEX_FULL, supported := 0x2f, advertising := 0x2f,
      regs := (regs chip0)((PRIMARY, 0x00) := 0x1000, (PRIMARY, 0x01) := 0x7949,
                           (PRIMARY, 0x04) := 0x01e1, (PRIMARY, 0x09) := 0x0200)\<rparr>"

section \<open>The states the driver can be in\<close>

text \<open>
  The two file-scope variables start at zero.  Between two calls the chip, the bus
  and the fields of the device structure may change in any way; the two variables are
  written by the driver only.  The steps are the entry points of the later revision,
  \<open>mars_get_port_type\<close> (called from the initialisation) and the bracketing accesses
  the remaining entry points are made of.
\<close>

inductive reachable :: "mars_state \<Rightarrow> bool" where
  boot: "g_port_status s = 0 \<Longrightarrow> reachable s"
| env: "reachable s \<Longrightarrow> g_port_type s' = g_port_type s \<Longrightarrow>
        g_port_status s' = g_port_status s \<Longrightarrow> reachable s'"
| get_port_type: "reachable s \<Longrightarrow> reachable (snd (mars_get_port_type s))"
| update_link: "reachable s \<Longrightarrow> reachable (snd (mars_update_link s))"
| read_status: "reachable s \<Longrightarrow> reachable (snd (mars_read_status s))"
| config_aneg: "reachable s \<Longrightarrow> reachable (snd (mars1s_config_aneg s))"
| get_wol: "reachable s \<Longrightarrow> reachable (snd (mars_get_wol s wol))"
| set_wol: "reachable s \<Longrightarrow> reachable (snd (mars_set_wol s wol))"
| page_read: "reachable s \<Longrightarrow> reachable (snd (mars_page_read s page regnum))"
| page_write: "reachable s \<Longrightarrow> reachable (snd (mars_page_write s page regnum v))"
| page_ext_write: "reachable s \<Longrightarrow> reachable (snd (mars_page_ext_write s page regnum v))"

text \<open>The active medium is one of the two media.\<close>

definition media_ok :: "mars_state \<Rightarrow> bool" where
  "media_ok s =
     (g_port_status s = MARS_PORT_TYPE_UTP \<or> g_port_status s = MARS_PORT_TYPE_FIBER)"

section \<open>Facts about the bus primitives\<close>

lemma bus_ok_numeral [simp]:
  "bus_ok (numeral k) fs = (0 \<le> next_fault fs \<and> bus_ok (pred_numeral k) (tl fs))"
  by (simp add: numeral_eq_Suc)

lemma phy_read_faults [simp]: "faults (snd (phy_read s r)) = tl (faults s)"
  by (simp add: phy_read_def Let_def)

lemma phy_write_faults [simp]: "faults (snd (phy_write s r v)) = tl (faults s)"
  by (simp add: phy_write_def Let_def)

lemma phy_read_bank [simp]: "cur_bank (snd (phy_read s r)) = cur_bank s"
  by (simp add: phy_read_def Let_def cur_bank_def)

lemma phy_read_neg [simp]: "(fst (phy_read s r) < 0) = (next_fault (faults s) < 0)"
  by (simp add: phy_read_def Let_def)

lemma phy_write_neg [simp]: "(fst (phy_write s r v) < 0) = (next_fault (faults s) < 0)"
  by (simp add: phy_write_def Let_def)

lemma ext_read_faults:
  "faults (snd (mars_ext_read s r)) =
     (if next_fault (faults s) < 0 then tl (faults s) else tl (tl (faults s)))"
  by (simp add: mars_ext_read_def split_beta)

lemma ext_write_faults:
  "faults (snd (mars_ext_write s r v)) =
     (if next_fault (faults s) < 0 then tl (faults s) else tl (tl (faults s)))"
  by (simp add: mars_ext_write_def split_beta)

lemma ext_read_neg: "(fst (mars_ext_read s r) < 0) = (\<not> bus_ok 2 (faults s))"
  by (auto simp add: mars_ext_read_def split_beta)

lemma ext_write_neg: "(fst (mars_ext_write s r v) < 0) = (\<not> bus_ok 2 (faults s))"
  by (auto simp add: mars_ext_write_def split_beta)

lemma ext_read_bank [simp]: "cur_bank (snd (mars_ext_read s r)) = cur_bank s"
  by (simp add: mars_ext_read_def split_beta phy_write_def phy_read_def Let_def cur_bank_def)

lemma ext_read_page_val:
  "bus_ok 2 (faults s) \<Longrightarrow> fst (mars_ext_read s CTC_MARS_PAGE_REG) = uint (ext s 0xa000)"
  by (simp add: mars_ext_read_def split_beta phy_write_def phy_read_def Let_def
        CTC_MARS_PAGE_REG_def)

lemma select_faults:
  "faults (snd (mars_select_reg_space s sp)) =
     (if next_fault (faults s) < 0 then tl (faults s) else tl (tl (faults s)))"
  by (simp add: mars_select_reg_space_def ext_write_faults)

lemma select_neg: "(fst (mars_select_reg_space s sp) < 0) = (\<not> bus_ok 2 (faults s))"
  by (simp add: mars_select_reg_space_def ext_write_neg)

lemma select_bank:
  "cur_bank (snd (mars_select_reg_space s sp)) =
     (if bus_ok 2 (faults s) then (if sp = 0 then PRIMARY else SECONDARY) else cur_bank s)"
  by (simp add: mars_select_reg_space_def mars_ext_write_def split_beta phy_write_def
        Let_def cur_bank_def CTC_PHY_REG_SPACE_def)

lemma uint_and2_eq0: "(uint (w::16 word) AND 2 = 0) = (w AND 2 = 0)"
proof -
  have "uint (w AND 2) = uint w AND 2" by (simp add: uint_and)
  then show ?thesis by (metis uint_0_iff)
qed

lemma bank_of_oldpage:
  "(if uint (ext s 0xa000) AND 2 = 0 then PRIMARY else SECONDARY) = cur_bank s"
  by (simp add: cur_bank_def uint_and2_eq0)

section \<open>The bracketing operations give the space back\<close>

lemma page_read_restores:
  assumes "bus_ok 4 (faults s) \<longrightarrow> bus_ok 2 (drop 5 (faults s))"
  shows "cur_bank (snd (mars_page_read s page regnum)) = cur_bank s"
proof (cases "bus_ok 2 (faults s)")
  case False
  then show ?thesis
    by (simp add: mars_page_read_def split_beta ext_read_neg)
next
  case rd: True
  show ?thesis
  proof (cases "bus_ok 2 (tl (tl (faults s)))")
    case False
    with rd show ?thesis
      by (auto simp add: mars_page_read_def split_beta Let_def ext_read_neg select_neg
            ext_read_faults select_bank)
  next
    case True
    with rd assms have "bus_ok 2 (drop 5 (faults s))" by simp
    with rd True show ?thesis
      by (simp add: mars_page_read_def split_beta Let_def ext_read_neg select_neg
            ext_read_faults select_faults select_bank ext_read_page_val bank_of_oldpage
            drop_Suc numeral_eq_Suc)
  qed
qed

lemma page_write_restores:
  assumes "bus_ok 4 (faults s) \<longrightarrow> bus_ok 2 (drop 5 (faults s))"
  shows "cur_bank (snd (mars_page_write s page regnum v)) = cur_bank s"
proof (cases "bus_ok 2 (faults s)")
  case False
  then show ?thesis
    by (simp add: mars_page_write_def split_beta ext_read_neg)
next
  case rd: True
  show ?thesis
  proof (cases "bus_ok 2 (tl (tl (faults s)))")
    case False
    with rd show ?thesis
      by (auto simp add: mars_page_write_def split_beta Let_def ext_read_neg select_neg
            ext_read_faults select_bank)
  next
    case True
    with rd assms have "bus_ok 2 (drop 5 (faults s))" by simp
    with rd True show ?thesis
      by (simp add: mars_page_write_def split_beta Let_def ext_read_neg select_neg
            ext_read_faults select_faults select_bank ext_read_page_val bank_of_oldpage
            drop_Suc numeral_eq_Suc)
  qed
qed

lemma page_ext_write_restores:
  assumes "bus_ok 4 (faults s) \<longrightarrow>
           bus_ok 2 (drop (if next_fault (drop 4 (faults s)) < 0 then 5 else 6) (faults s))"
  shows "cur_bank (snd (mars_page_ext_write s page regnum v)) = cur_bank s"
proof (cases "bus_ok 2 (faults s)")
  case False
  then show ?thesis
    by (simp add: mars_page_ext_write_def split_beta ext_read_neg)
next
  case rd: True
  show ?thesis
  proof (cases "bus_ok 2 (tl (tl (faults s)))")
    case False
    with rd show ?thesis
      by (auto simp add: mars_page_ext_write_def split_beta Let_def ext_read_neg select_neg
            ext_read_faults select_bank)
  next
    case True
    with rd assms have
      "bus_ok 2 (drop (if next_fault (drop 4 (faults s)) < 0 then 5 else 6) (faults s))"
      by simp
    with rd True show ?thesis
      by (simp add: mars_page_ext_write_def split_beta Let_def ext_read_neg select_neg
            ext_read_faults ext_write_faults select_faults select_bank ext_read_page_val
            bank_of_oldpage drop_Suc numeral_eq_Suc split: if_splits)
  qed
qed

text \<open>
  C1 (as amended).  For \<open>mars_page_read\<close>, \<open>mars_page_write\<close> and
  \<open>mars_page_ext_write\<close> the register space selected when the operation returns is
  the space that was selected when it was called, on every exit path but one: the
  path on which the switch succeeded (the first four transactions) and one of the
  two bus writes of the final restore fails.  The inner access is the fifth
  transaction (and the sixth, for an extended write whose first half succeeded) and
  may fail freely.
\<close>

theorem page_ops_restore_space:
  "((bus_ok 4 (faults s) \<longrightarrow> bus_ok 2 (drop 5 (faults s))) \<longrightarrow>
      cur_bank (snd (mars_page_read s page regnum)) = cur_bank s \<and>
      cur_bank (snd (mars_page_write s page regnum v)) = cur_bank s) \<and>
   ((bus_ok 4 (faults s) \<longrightarrow>
       bus_ok 2 (drop (if next_fault (drop 4 (faults s)) < 0 then 5 else 6) (faults s))) \<longrightarrow>
      cur_bank (snd (mars_page_ext_write s page regnum v)) = cur_bank s)"
  using page_read_restores page_write_restores page_ext_write_restores by blast

theorem page_ops_restore_space_witness:
  "bus_ok 4 (faults (chip0\<lparr>faults := [0, 0, 0, 0, - 5]\<rparr>)) \<and>
   next_fault (drop 4 (faults (chip0\<lparr>faults := [0, 0, 0, 0, - 5]\<rparr>))) < 0 \<and>
   bus_ok 2 (drop 5 (faults (chip0\<lparr>faults := [0, 0, 0, 0, - 5]\<rparr>))) \<and>
   cur_bank (chip0\<lparr>faults := [0, 0, 0, 0, - 5]\<rparr>) = PRIMARY \<and>
   cur_bank (snd (mars_page_read (chip0\<lparr>faults := [0, 0, 0, 0, - 5]\<rparr>) 1 1)) = PRIMARY \<and>
   cur_bank (snd (mars_page_write (chip0\<lparr>faults := [0, 0, 0, 0, - 5]\<rparr>) 1 1 7)) = PRIMARY \<and>
   cur_bank (snd (mars_page_ext_write (chip0\<lparr>faults := [0, 0, 0, 0, - 5]\<rparr>) 1 0xa5 5))
     = PRIMARY"
  using page_ops_restore_space [of "chip0\<lparr>faults := [0, 0, 0, 0, - 5]\<rparr>" 1 1 7]
    page_ops_restore_space [of "chip0\<lparr>faults := [0, 0, 0, 0, - 5]\<rparr>" 1 "0xa5" 5]
  by (simp add: chip0_def cur_bank_def next_fault_def)

text \<open>
  C1 as it is written fails twice.  The earlier \<open>mars_set_wol\<close>, called with the
  secondary space selected on a bus that never fails, returns 0 and leaves the
  primary space selected.  And \<open>mars_page_read\<close> of a secondary-space register,
  called with the primary space selected, leaves the secondary space selected when
  the restoring write fails.
\<close>

theorem space_not_restored_counterexample:
  "cur_bank chip_sds = SECONDARY \<and>
   fst (mars_set_wol_v1 chip_sds \<lparr>wol_supported = 0, wolopts = 0\<rparr>) = 0 \<and>
   cur_bank (snd (mars_set_wol_v1 chip_sds \<lparr>wol_supported = 0, wolopts = 0\<rparr>)) = PRIMARY \<and>
   cur_bank chip_restore_fails = PRIMARY \<and>
   fst (mars_page_read chip_restore_fails CTC_SDS_REG_SPACE MII_BMSR) = - 5 \<and>
   cur_bank (snd (mars_page_read chip_restore_fails CTC_SDS_REG_SPACE MII_BMSR)) = SECONDARY"
  by code_simp

section \<open>Runs on a quiet bus\<close>

lemma drop_numeral_tl: "drop (numeral k) xs = drop (pred_numeral k) (tl xs)"
  by (simp add: numeral_eq_Suc drop_Suc)

lemma phy_read_ok:
  "0 \<le> next_fault (faults s) \<Longrightarrow> r \<noteq> 0x1e \<Longrightarrow> r \<noteq> 0x1f \<Longrightarrow>
   phy_read s r = (uint (regs s (cur_bank s, r)),
     s\<lparr>faults := tl (faults s), trace := trace s @ [Read (cur_bank s) r]\<rparr>)"
  by (simp add: phy_read_def Let_def)

lemma phy_write_ok:
  "0 \<le> next_fault (faults s) \<Longrightarrow> r \<noteq> 0x1e \<Longrightarrow> r \<noteq> 0x1f \<Longrightarrow>
   phy_write s r v = (0,
     s\<lparr>regs := (regs s)((cur_bank s, r) := v), faults := tl (faults s),
       trace := trace s @ [Write (cur_bank s) r v]\<rparr>)"
  by (simp add: phy_write_def Let_def)

lemma ext_read_ok:
  "bus_ok 2 (faults s) \<Longrightarrow>
   mars_ext_read s r =
     (uint (ext s (ucast r)),
      s\<lparr>latch := ucast r, faults := tl (tl (faults s)),
        trace := trace s @ [Write (cur_bank s) 0x1e (ucast r), Read (cur_bank s) 0x1f]\<rparr>)"
  by (simp add: mars_ext_read_def phy_write_def phy_read_def Let_def cur_bank_def)

lemma ext_write_ok:
  "bus_ok 2 (faults s) \<Longrightarrow>
   mars_ext_write s r v =
     (0, s\<lparr>latch := ucast r, ext := (ext s)(ucast r := v), faults := tl (tl (faults s)),
        trace := trace s @ [Write (cur_bank s) 0x1e (ucast r), Write (cur_bank s) 0x1f v]\<rparr>)"
  by (simp add: mars_ext_write_def phy_write_def Let_def cur_bank_def)

lemma select_ok:
  "bus_ok 2 (faults s) \<Longrightarrow>
   mars_select_reg_space s page =
     (0, s\<lparr>latch := 0xa000, ext := (ext s)(0xa000 := page_val page),
          faults := tl (tl (faults s)),
          trace := trace s @ [Write (cur_bank s) 0x1e 0xa000,
                              Write (cur_bank s) 0x1f (page_val page)]\<rparr>)"
  by (simp add: mars_select_reg_space_def ext_write_ok page_val_def CTC_PHY_REG_SPACE_def)

lemma page_read_ok:
  assumes "bus_ok 7 (faults s)" and "regnum \<noteq> 0x1e" and "regnum \<noteq> 0x1f"
  shows "mars_page_read s page regnum =
     (uint (regs s (page_bank page, regnum)),
      s\<lparr>latch := 0xa000, ext := (ext s)(0xa000 := page_val (uint (ext s 0xa000) AND 2)),
        faults := drop 7 (faults s),
        trace := trace s @
          [Write (cur_bank s) 0x1e 0xa000, Read (cur_bank s) 0x1f,
           Write (cur_bank s) 0x1e 0xa000, Write (cur_bank s) 0x1f (page_val page),
           Read (page_bank page) regnum,
           Write (page_bank page) 0x1e 0xa000,
           Write (page_bank page) 0x1f (page_val (uint (ext s 0xa000) AND 2))]\<rparr>)"
  using assms
  by (simp add: mars_page_read_def ext_read_ok select_ok CTC_MARS_PAGE_REG_def phy_read_def
      Let_def cur_bank_def page_val_def page_bank_def drop_numeral_tl drop_Suc)

lemma page_write_ok:
  assumes "bus_ok 7 (faults s)" and "regnum \<noteq> 0x1e" and "regnum \<noteq> 0x1f"
  shows "mars_page_write s page regnum v =
     (0,
      s\<lparr>latch := 0xa000, ext := (ext s)(0xa000 := page_val (uint (ext s 0xa000) AND 2)),
        regs := (regs s)((page_bank page, regnum) := v),
        faults := drop 7 (faults s),
        trace := trace s @
          [Write (cur_bank s) 0x1e 0xa000, Read (cur_bank s) 0x1f,
           Write (cur_bank s) 0x1e 0xa000, Write (cur_bank s) 0x1f (page_val page),
           Write (page_bank page) regnum v,
           Write (page_bank page) 0x1e 0xa000,
           Write (page_bank page) 0x1f (page_val (uint (ext s 0xa000) AND 2))]\<rparr>)"
  using assms
  by (simp add: mars_page_write_def ext_read_ok select_ok CTC_MARS_PAGE_REG_def phy_write_def
      Let_def cur_bank_def page_val_def page_bank_def drop_numeral_tl drop_Suc)

lemma wol_en_cfg_ok:
  assumes "bus_ok 4 (faults s)"
  shows "mars_wol_en_cfg s cfg =
    (0, s\<lparr>latch := 0xa00a,
          ext := (ext s)(0xa00a := word_of_int (wol_cfg_val (uint (ext s 0xa00a)) cfg)),
          faults := drop 4 (faults s),
          trace := trace s @
            [Write (cur_bank s) 0x1e 0xa00a, Read (cur_bank s) 0x1f,
             Write (cur_bank s) 0x1e 0xa00a,
             Write (cur_bank s) 0x1f (word_of_int (wol_cfg_val (uint (ext s 0xa00a)) cfg))]\<rparr>)"
  using assms
  by (simp add: mars_wol_en_cfg_def wol_cfg_val_def ext_read_ok ext_write_ok
        CTC_MARS_WOL_CFG_REG_def cur_bank_def drop_numeral_tl drop_Suc)

section \<open>Port type detection\<close>

text \<open>
  C3.  When the configuration register is read (both bus transactions succeed),
  \<open>mars_get_port_type\<close> returns 0 and classifies the low three bits \<open>v\<close> of the value:
  0 or 3 gives UTP (copper), 1, 4 or 5 gives FIBER, anything else COMBO; for copper and
  fiber the active medium \<open>g_port_status\<close> is set to the same medium, for COMBO it is
  left as it was.
\<close>

theorem get_port_type_classifies:
  assumes "bus_ok 2 (faults s)"
  shows "fst (mars_get_port_type s) = 0 \<and>
    (let v = ext s 0xa001 AND 0x7; s' = snd (mars_get_port_type s) in
       (if v = 0 \<or> v = 3 then
          g_port_type s' = MARS_PORT_TYPE_UTP \<and> g_port_status s' = MARS_PORT_TYPE_UTP
        else if v = 1 \<or> v = 4 \<or> v = 5 then
          g_port_type s' = MARS_PORT_TYPE_FIBER \<and> g_port_status s' = MARS_PORT_TYPE_FIBER
        else
          g_port_type s' = MARS_PORT_TYPE_COMBO \<and> g_port_status s' = g_port_status s))"
proof -
  have m: "uint (ext s 0xa001) AND 7 = uint (ext s 0xa001 AND 7)"
    by (simp add: uint_and)
  have e: "\<And>k. (uint (ext s 0xa001 AND 7) = uint (k::16 word)) = (ext s 0xa001 AND 7 = k)"
    by (simp add: word_uint_eq_iff)
  show ?thesis
    using assms e[of 0] e[of 1] e[of 3] e[of 4] e[of 5]
    by (simp add: mars_get_port_type_def ext_read_ok CTC_MARS_CHIP_CFG_REG_def Let_def m)
qed

theorem get_port_type_classifies_witness:
  "bus_ok 2 (faults chip_cfg_fiber) \<and>
   ext chip_cfg_fiber 0xa001 AND 0x7 = 1 \<and>
   fst (mars_get_port_type chip_cfg_fiber) = 0 \<and>
   g_port_type (snd (mars_get_port_type chip_cfg_fiber)) = MARS_PORT_TYPE_FIBER \<and>
   g_port_status (snd (mars_get_port_type chip_cfg_fiber)) = MARS_PORT_TYPE_FIBER"
proof -
  have h: "bus_ok 2 (faults chip_cfg_fiber)"
    by (simp add: chip_cfg_fiber_def chip0_def next_fault_def)
  have v: "ext chip_cfg_fiber 0xa001 AND 0x7 = 1"
    by (simp add: chip_cfg_fiber_def chip0_def)
  from get_port_type_classifies [OF h] h v show ?thesis
    by (simp add: Let_def)
qed

section \<open>Wake-on-LAN\<close>

lemma int_and_bit: "((x::int) AND push_bit n 1 \<noteq> 0) = bit x n"
  by (simp add: bit_iff_and_push_bit_not_eq_0)

lemma int_and_8: "((x::int) AND 8 \<noteq> 0) = bit x 3"
  using int_and_bit [of x 3] by simp

text \<open>
  C9.  \<open>mars_get_wol\<close> has no error result.  It always reports magic-packet support;
  when the read of the WOL configuration register fails it reports \<open>wolopts = 0\<close>, and
  when the read succeeds it reports \<open>WAKE_MAGIC\<close> exactly when bit 3 of the register is
  set.
\<close>

theorem get_wol_swallows_errors:
  "wol_supported (fst (mars_get_wol s wol)) = WAKE_MAGIC \<and>
   (\<not> bus_ok 2 (faults s) \<longrightarrow> wolopts (fst (mars_get_wol s wol)) = 0) \<and>
   (bus_ok 2 (faults s) \<longrightarrow>
      wolopts (fst (mars_get_wol s wol)) = (if bit (ext s 0xa00a) 3 then WAKE_MAGIC else 0))"
proof (cases "bus_ok 2 (faults s)")
  case True
  then show ?thesis
    by (simp add: mars_get_wol_def ext_read_ok CTC_MARS_WOL_CFG_REG_def CTC_MARS_WOL_EN_def
          int_and_8 bit_uint_iff)
next
  case False
  then have "fst (mars_ext_read s CTC_MARS_WOL_CFG_REG) < 0"
    by (simp add: ext_read_neg)
  with False show ?thesis
    by (auto simp add: mars_get_wol_def split_beta)
qed

theorem get_wol_swallows_errors_witness:
  "\<not> bus_ok 2 (faults (chip_wol_armed\<lparr>faults := [0, - 5]\<rparr>)) \<and>
   wol_supported (fst (mars_get_wol (chip_wol_armed\<lparr>faults := [0, - 5]\<rparr>) wol_magic))
     = WAKE_MAGIC \<and>
   wolopts (fst (mars_get_wol (chip_wol_armed\<lparr>faults := [0, - 5]\<rparr>) wol_magic)) = 0 \<and>
   bus_ok 2 (faults chip_wol_armed) \<and> bit (ext chip_wol_armed 0xa00a) 3 \<and>
   wolopts (fst (mars_get_wol chip_wol_armed wol_magic)) = WAKE_MAGIC"
proof -
  have a: "\<not> bus_ok 2 (faults (chip_wol_armed\<lparr>faults := [0, - 5]\<rparr>))"
    by (simp add: next_fault_def)
  have b: "bus_ok 2 (faults chip_wol_armed)"
    by (simp add: chip_wol_armed_def chip0_def next_fault_def)
  have c: "bit (ext chip_wol_armed 0xa00a) 3"
    by (simp add: chip_wol_armed_def chip0_def)
  from a b c
    get_wol_swallows_errors [of "chip_wol_armed\<lparr>faults := [0, - 5]\<rparr>" wol_magic]
    get_wol_swallows_errors [of chip_wol_armed wol_magic]
  show ?thesis by simp
qed

lemma bit_pow_int: "bit (push_bit k (1::int)) n = (n = k)"
  by (auto simp only: bit_push_bit_iff bit_1_iff possible_bit_int)

lemma bit_wol_consts:
  "bit CTC_MARS_WOL_EN n = (n = 3)"
  "bit CTC_MARS_WOL_TYPE n = (n = 0)"
  "bit CTC_MARS_WOL_INTR_SEL n = (n = 6)"
  "bit CTC_MARS_WOL_WIDTH1 n = (n = 1)"
  "bit CTC_MARS_WOL_WIDTH2 n = (n = 2)"
  unfolding CTC_MARS_WOL_EN_def CTC_MARS_WOL_TYPE_def CTC_MARS_WOL_INTR_SEL_def
    CTC_MARS_WOL_WIDTH1_def CTC_MARS_WOL_WIDTH2_def
  by (simp_all only: bit_pow_int)

lemma wol_cfg_val_frame:
  "n \<notin> wol_related_bits \<Longrightarrow> bit (wol_cfg_val x cfg) n = bit x n"
  by (simp add: wol_cfg_val_def wol_related_bits_def Let_def bit_or_iff bit_and_iff bit_not_iff
        bit_wol_consts)

lemma wol_en_cfg_frame:
  assumes "bus_ok 4 (faults s)" and "n \<notin> wol_related_bits"
  shows "bit (ext (snd (mars_wol_en_cfg s cfg)) 0xa00a) n = bit (ext s 0xa00a) n"
  using assms
  by (auto simp add: wol_en_cfg_ok bit_word_of_int_iff wol_cfg_val_frame bit_uint_iff
        dest: bit_imp_le_length)

lemma wol_cfg_val_disable:
  "enable cfg = 0 \<Longrightarrow> bit (wol_cfg_val x cfg) n = (n \<noteq> 3 \<and> n \<noteq> 6 \<and> bit x n)"
  by (auto simp add: wol_cfg_val_def Let_def bit_or_iff bit_and_iff bit_not_iff bit_wol_consts)

lemma wol_cfg_val_enable:
  "enable cfg \<noteq> 0 \<Longrightarrow> bit (wol_cfg_val x cfg) 3"
  by (simp add: wol_cfg_val_def Let_def bit_or_iff bit_and_iff bit_not_iff bit_wol_consts)

lemma wol_cfg_val_level:
  "enable cfg \<noteq> 0 \<Longrightarrow> type cfg = MARS_WOL_TYPE_LEVEL \<Longrightarrow>
   bit (wol_cfg_val x cfg) n = (n = 3 \<or> (n \<noteq> 0 \<and> n \<noteq> 6 \<and> bit x n))"
  by (auto simp add: wol_cfg_val_def Let_def bit_or_iff bit_and_iff bit_not_iff bit_wol_consts)

lemma wol_cfg_val_pulse:
  "enable cfg \<noteq> 0 \<Longrightarrow> type cfg = MARS_WOL_TYPE_PULSE \<Longrightarrow>
   bit (wol_cfg_val x cfg) 0 \<and> bit (wol_cfg_val x cfg) 6"
  by (simp add: wol_cfg_val_def Let_def bit_or_iff bit_and_iff bit_not_iff bit_wol_consts
        MARS_WOL_TYPE_PULSE_def MARS_WOL_TYPE_LEVEL_def)

lemma wol_cfg_val_width:
  "enable cfg \<noteq> 0 \<Longrightarrow> type cfg = MARS_WOL_TYPE_PULSE \<Longrightarrow> width cfg \<in> {0, 1, 2, 3} \<Longrightarrow>
   bit (wol_cfg_val x cfg) 1 = bit (width cfg) 0 \<and>
   bit (wol_cfg_val x cfg) 2 = bit (width cfg) 1"
  by (auto simp add: wol_cfg_val_def Let_def bit_or_iff bit_and_iff bit_not_iff bit_wol_consts
        MARS_WOL_TYPE_PULSE_def MARS_WOL_TYPE_LEVEL_def MARS_WOL_WIDTH_84MS_def
        MARS_WOL_WIDTH_168MS_def MARS_WOL_WIDTH_336MS_def MARS_WOL_WIDTH_672MS_def)

lemma new_wol_bit:
  "bus_ok 4 (faults s) \<Longrightarrow> n < 16 \<Longrightarrow>
   bit (ext (snd (mars_wol_en_cfg s cfg)) 0xa00a) n =
   bit (wol_cfg_val (uint (ext s 0xa00a)) cfg) n"
  by (simp add: wol_en_cfg_ok bit_word_of_int_iff)

text \<open>
  C6 (as amended).  On a quiet bus \<open>mars_wol_en_cfg\<close> reads the WOL configuration
  register and writes it back with every bit outside the WOL-related bits as read.
  Of the WOL-related bits it changes only those the new configuration determines:
  disabled clears enable and interrupt select and keeps type and width as read;
  enabled sets enable; enabled with LEVEL clears type and interrupt select and keeps
  the width as read; enabled with PULSE sets type and interrupt select and, for one of
  the four widths, writes the width bits.
\<close>

theorem wol_en_cfg_read_modify_write:
  assumes "bus_ok 4 (faults s)"
  shows "let old = ext s 0xa00a; new = ext (snd (mars_wol_en_cfg s cfg)) 0xa00a in
    fst (mars_wol_en_cfg s cfg) = 0 \<and>
    (\<forall>n. n \<notin> wol_related_bits \<longrightarrow> bit new n = bit old n) \<and>
    (enable cfg = 0 \<longrightarrow>
       \<not> bit new 3 \<and> \<not> bit new 6 \<and>
       bit new 0 = bit old 0 \<and> bit new 1 = bit old 1 \<and> bit new 2 = bit old 2) \<and>
    (enable cfg \<noteq> 0 \<longrightarrow> bit new 3) \<and>
    (enable cfg \<noteq> 0 \<and> type cfg = MARS_WOL_TYPE_LEVEL \<longrightarrow>
       \<not> bit new 0 \<and> \<not> bit new 6 \<and> bit new 1 = bit old 1 \<and> bit new 2 = bit old 2) \<and>
    (enable cfg \<noteq> 0 \<and> type cfg = MARS_WOL_TYPE_PULSE \<longrightarrow> bit new 0 \<and> bit new 6) \<and>
    (enable cfg \<noteq> 0 \<and> type cfg = MARS_WOL_TYPE_PULSE \<and> width cfg \<in> {0, 1, 2, 3} \<longrightarrow>
       bit new 1 = bit (width cfg) 0 \<and> bit new 2 = bit (width cfg) 1)"
proof -
  have ret: "fst (mars_wol_en_cfg s cfg) = 0"
    using assms by (simp add: wol_en_cfg_ok)
  have frame: "\<forall>n. n \<notin> wol_related_bits \<longrightarrow>
      bit (ext (snd (mars_wol_en_cfg s cfg)) 0xa00a) n = bit (ext s 0xa00a) n"
    using assms by (simp add: wol_en_cfg_frame)
  have dis: "enable cfg = 0 \<longrightarrow>
       \<not> bit (ext (snd (mars_wol_en_cfg s cfg)) 0xa00a) 3 \<and>
       \<not> bit (ext (snd (mars_wol_en_cfg s cfg)) 0xa00a) 6 \<and>
       bit (ext (snd (mars_wol_en_cfg s cfg)) 0xa00a) 0 = bit (ext s 0xa00a) 0 \<and>
       bit (ext (snd (mars_wol_en_cfg s cfg)) 0xa00a) 1 = bit (ext s 0xa00a) 1 \<and>
       bit (ext (snd (mars_wol_en_cfg s cfg)) 0xa00a) 2 = bit (ext s 0xa00a) 2"
    using assms by (simp add: new_wol_bit wol_cfg_val_disable bit_uint_iff)
  have en: "enable cfg \<noteq> 0 \<longrightarrow> bit (ext (snd (mars_wol_en_cfg s cfg)) 0xa00a) 3"
    using assms by (simp add: new_wol_bit wol_cfg_val_enable)
  have lvl: "enable cfg \<noteq> 0 \<and> type cfg = MARS_WOL_TYPE_LEVEL \<longrightarrow>
       \<not> bit (ext (snd (mars_wol_en_cfg s cfg)) 0xa00a) 0 \<and>
       \<not> bit (ext (snd (mars_wol_en_cfg s cfg)) 0xa00a) 6 \<and>
       bit (ext (snd (mars_wol_en_cfg s cfg)) 0xa00a) 1 = bit (ext s 0xa00a) 1 \<and>
       bit (ext (snd (mars_wol_en_cfg s cfg)) 0xa00a) 2 = bit (ext s 0xa00a) 2"
    using assms by (simp add: new_wol_bit wol_cfg_val_level bit_uint_iff)
  have pls: "enable cfg \<noteq> 0 \<and> type cfg = MARS_WOL_TYPE_PULSE \<longrightarrow>
       bit (ext (snd (mars_wol_en_cfg s cfg)) 0xa00a) 0 \<and>
       bit (ext (snd (mars_wol_en_cfg s cfg)) 0xa00a) 6"
    using assms by (simp add: new_wol_bit wol_cfg_val_pulse)
  have wd: "enable cfg \<noteq> 0 \<and> type cfg = MARS_WOL_TYPE_PULSE \<and> width cfg \<in> {0, 1, 2, 3} \<longrightarrow>
       bit (ext (snd (mars_wol_en_cfg s cfg)) 0xa00a) 1 = bit (width cfg) 0 \<and>
       bit (ext (snd (mars_wol_en_cfg s cfg)) 0xa00a) 2 = bit (width cfg) 1"
    using assms wol_cfg_val_width [of cfg "uint (ext s 0xa00a)"]
    by (simp add: new_wol_bit)
  from ret frame dis en lvl pls wd show ?thesis
    unfolding Let_def by blast
qed

theorem wol_en_cfg_read_modify_write_witness:
  "bus_ok 4 (faults chip_wol_clear) \<and>
   enable cfg_pulse_672 \<noteq> 0 \<and> type cfg_pulse_672 = MARS_WOL_TYPE_PULSE \<and>
   width cfg_pulse_672 \<in> {0, 1, 2, 3} \<and> 4 \<notin> wol_related_bits \<and>
   (let old = ext chip_wol_clear 0xa00a;
        new = ext (snd (mars_wol_en_cfg chip_wol_clear cfg_pulse_672)) 0xa00a in
    fst (mars_wol_en_cfg chip_wol_clear cfg_pulse_672) = 0 \<and>
    bit new 4 = bit old 4 \<and> bit new 3 \<and> bit new 0 \<and> bit new 6 \<and>
    bit new 1 = bit (width cfg_pulse_672) 0 \<and> bit new 2 = bit (width cfg_pulse_672) 1)"
proof -
  have h: "bus_ok 4 (faults chip_wol_clear)"
    by (simp add: chip_wol_clear_def chip0_def next_fault_def)
  have c: "enable cfg_pulse_672 \<noteq> 0 \<and> type cfg_pulse_672 = MARS_WOL_TYPE_PULSE \<and>
           width cfg_pulse_672 \<in> {0, 1, 2, 3}"
    by (simp add: cfg_pulse_672_def CTC_PHY_GLB_ENABLE_def MARS_WOL_WIDTH_672MS_def)
  have b: "4 \<notin> wol_related_bits"
    by (simp add: wol_related_bits_def)
  from wol_en_cfg_read_modify_write [OF h, of cfg_pulse_672] h c b show ?thesis
    unfolding Let_def by blast
qed

text \<open>
  C6 as it is written says that the WOL-related bits are cleared whatever the
  configuration and then set from it.  Disabling WOL on a register that holds \<open>0x4f\<close>
  writes \<open>0x07\<close>: the type and width bits are still set, where clearing first would
  have written \<open>0x00\<close>.
\<close>

theorem wol_bits_not_cleared_counterexample:
  "ext chip_wol_armed 0xa00a = 0x4f \<and>
   fst (mars_wol_en_cfg chip_wol_armed cfg_off) = 0 \<and>
   ext (snd (mars_wol_en_cfg chip_wol_armed cfg_off)) 0xa00a = 0x07 \<and>
   (word_of_int (wol_cfg_clear_then_set 0x4f cfg_off) :: 16 word) = 0x00"
  by code_simp

section \<open>The magic-packet address\<close>

lemma mac_pair:
  "(word_of_int (push_bit 8 (uint (a::8 word)) OR uint (b::8 word)) :: 16 word)
     = push_bit 8 (ucast a) OR ucast b"
  by (rule bit_word_eqI) (auto simp add: bit_simps)

lemma set_wol_mac:
  assumes "bus_ok 24 (faults s)" and "wolopts wol AND WAKE_MAGIC \<noteq> 0"
  shows "fst (mars_set_wol s wol) = 0 \<and>
    ext (snd (mars_set_wol s wol)) 0xa007
      = push_bit 8 (ucast (dev_addr s 0)) OR ucast (dev_addr s 1) \<and>
    ext (snd (mars_set_wol s wol)) 0xa008
      = push_bit 8 (ucast (dev_addr s 2)) OR ucast (dev_addr s 3) \<and>
    ext (snd (mars_set_wol s wol)) 0xa009
      = push_bit 8 (ucast (dev_addr s 4)) OR ucast (dev_addr s 5)"
  using assms
  by (simp add: mars_set_wol_def page_read_ok page_write_ok wol_en_cfg_ok ext_write_ok
        CTC_MARS_INTR_REG_def CTC_MARS_MAGIC_PACKET_MAC_ADDR2_def
        CTC_MARS_MAGIC_PACKET_MAC_ADDR1_def CTC_MARS_MAGIC_PACKET_MAC_ADDR0_def
        drop_numeral_tl drop_Suc mac_pair Let_def)

lemma set_wol_v1_mac:
  assumes "bus_ok 18 (faults s)" and "wolopts wol AND WAKE_MAGIC \<noteq> 0"
  shows "fst (mars_set_wol_v1 s wol) = 0 \<and>
    ext (snd (mars_set_wol_v1 s wol)) 0xa007
      = push_bit 8 (ucast (dev_addr s 0)) OR ucast (dev_addr s 1) \<and>
    ext (snd (mars_set_wol_v1 s wol)) 0xa008
      = push_bit 8 (ucast (dev_addr s 2)) OR ucast (dev_addr s 3) \<and>
    ext (snd (mars_set_wol_v1 s wol)) 0xa009
      = push_bit 8 (ucast (dev_addr s 4)) OR ucast (dev_addr s 5)"
  using assms
  by (simp add: mars_set_wol_v1_def ext_read_ok select_ok phy_read_ok phy_write_ok
        wol_en_cfg_ok ext_write_ok CTC_MARS_PAGE_REG_def
        CTC_MARS_INTR_REG_def CTC_MARS_MAGIC_PACKET_MAC_ADDR2_def
        CTC_MARS_MAGIC_PACKET_MAC_ADDR1_def CTC_MARS_MAGIC_PACKET_MAC_ADDR0_def
        drop_numeral_tl drop_Suc mac_pair Let_def)

text \<open>
  C8.  On a quiet bus, \<open>mars_set_wol\<close> with the magic-packet option, in the later
  and in the earlier revision, returns 0 and leaves in the registers \<open>0xa007\<close>,
  \<open>0xa008\<close> and \<open>0xa009\<close> the address bytes 0 and 1, 2 and 3, 4 and 5 of the attached
  device, the earlier byte of each pair in the high-order half.
\<close>

theorem set_wol_stores_mac:
  assumes "bus_ok 24 (faults s)" and "wolopts wol AND WAKE_MAGIC \<noteq> 0"
  shows "fst (mars_set_wol s wol) = 0 \<and> fst (mars_set_wol_v1 s wol) = 0 \<and>
    (\<forall>s' \<in> {snd (mars_set_wol s wol), snd (mars_set_wol_v1 s wol)}.
       ext s' 0xa007 = push_bit 8 (ucast (dev_addr s 0)) OR ucast (dev_addr s 1) \<and>
       ext s' 0xa008 = push_bit 8 (ucast (dev_addr s 2)) OR ucast (dev_addr s 3) \<and>
       ext s' 0xa009 = push_bit 8 (ucast (dev_addr s 4)) OR ucast (dev_addr s 5))"
proof -
  from assms(1) have "bus_ok 18 (faults s)" by simp
  with assms set_wol_mac [of s wol] set_wol_v1_mac [of s wol] show ?thesis
    by blast
qed

theorem set_wol_stores_mac_witness:
  "bus_ok 24 (faults chip_mac) \<and> wolopts wol_magic AND WAKE_MAGIC \<noteq> 0 \<and>
   fst (mars_set_wol chip_mac wol_magic) = 0 \<and>
   ext (snd (mars_set_wol chip_mac wol_magic)) 0xa007 = 0xAABB \<and>
   ext (snd (mars_set_wol chip_mac wol_magic)) 0xa008 = 0xCCDD \<and>
   ext (snd (mars_set_wol chip_mac wol_magic)) 0xa009 = 0xEEFF \<and>
   fst (mars_set_wol_v1 chip_mac wol_magic) = 0 \<and>
   ext (snd (mars_set_wol_v1 chip_mac wol_magic)) 0xa007 = 0xAABB \<and>
   ext (snd (mars_set_wol_v1 chip_mac wol_magic)) 0xa008 = 0xCCDD \<and>
   ext (snd (mars_set_wol_v1 chip_mac wol_magic)) 0xa009 = 0xEEFF"
proof -
  have h: "bus_ok 24 (faults chip_mac)"
    by (simp add: chip_mac_def chip0_def next_fault_def)
  have w: "wolopts wol_magic AND WAKE_MAGIC \<noteq> 0"
    by (simp add: wol_magic_def WAKE_MAGIC_def)
  have m: "dev_addr chip_mac 0 = 0xAA" "dev_addr chip_mac (Suc 0) = 0xBB"
    "dev_addr chip_mac 2 = 0xCC" "dev_addr chip_mac 3 = 0xDD"
    "dev_addr chip_mac 4 = 0xEE" "dev_addr chip_mac 5 = 0xFF"
    by (simp_all add: chip_mac_def chip0_def)
  have r: "fst (mars_set_wol chip_mac wol_magic) = 0 \<and>
   ext (snd (mars_set_wol chip_mac wol_magic)) 0xa007 = 0xAABB \<and>
   ext (snd (mars_set_wol chip_mac wol_magic)) 0xa008 = 0xCCDD \<and>
   ext (snd (mars_set_wol chip_mac wol_magic)) 0xa009 = 0xEEFF \<and>
   fst (mars_set_wol_v1 chip_mac wol_magic) = 0 \<and>
   ext (snd (mars_set_wol_v1 chip_mac wol_magic)) 0xa007 = 0xAABB \<and>
   ext (snd (mars_set_wol_v1 chip_mac wol_magic)) 0xa008 = 0xCCDD \<and>
   ext (snd (mars_set_wol_v1 chip_mac wol_magic)) 0xa009 = 0xEEFF"
    using set_wol_stores_mac [OF h w] by (simp add: m)
  from h w r show ?thesis by blast
qed

section \<open>What the bus operations leave alone\<close>

lemma phy_read_host [simp]:
  "g_port_type (snd (phy_read s r)) = g_port_type s"
  "g_port_status (snd (phy_read s r)) = g_port_status s"
  "speed (snd (phy_read s r)) = speed s"
  "duplex (snd (phy_read s r)) = duplex s"
  "pause (snd (phy_read s r)) = pause s"
  "asym_pause (snd (phy_read s r)) = asym_pause s"
  by (simp_all add: phy_read_def Let_def)

lemma phy_write_host [simp]:
  "g_port_type (snd (phy_write s r v)) = g_port_type s"
  "g_port_status (snd (phy_write s r v)) = g_port_status s"
  "speed (snd (phy_write s r v)) = speed s"
  "duplex (snd (phy_write s r v)) = duplex s"
  "pause (snd (phy_write s r v)) = pause s"
  "asym_pause (snd (phy_write s r v)) = asym_pause s"
  by (simp_all add: phy_write_def Let_def)

lemma ext_read_host [simp]:
  "g_port_type (snd (mars_ext_read s r)) = g_port_type s"
  "g_port_status (snd (mars_ext_read s r)) = g_port_status s"
  "speed (snd (mars_ext_read s r)) = speed s"
  "duplex (snd (mars_ext_read s r)) = duplex s"
  "pause (snd (mars_ext_read s r)) = pause s"
  "asym_pause (snd (mars_ext_read s r)) = asym_pause s"
  by (simp_all add: mars_ext_read_def split_beta)

lemma ext_write_host [simp]:
  "g_port_type (snd (mars_ext_write s r v)) = g_port_type s"
  "g_port_status (snd (mars_ext_write s r v)) = g_port_status s"
  "speed (snd (mars_ext_write s r v)) = speed s"
  "duplex (snd (mars_ext_write s r v)) = duplex s"
  "pause (snd (mars_ext_write s r v)) = pause s"
  "asym_pause (snd (mars_ext_write s r v)) = asym_pause s"
  by (simp_all add: mars_ext_write_def split_beta)

lemma select_host [simp]:
  "g_port_type (snd (mars_select_reg_space s p)) = g_port_type s"
  "g_port_status (snd (mars_select_reg_space s p)) = g_port_status s"
  "speed (snd (mars_select_reg_space s p)) = speed s"
  "duplex (snd (mars_select_reg_space s p)) = duplex s"
  "pause (snd (mars_select_reg_space s p)) = pause s"
  "asym_pause (snd (mars_select_reg_space s p)) = asym_pause s"
  by (simp_all add: mars_select_reg_space_def)

lemma page_read_host [simp]:
  "g_port_type (snd (mars_page_read s p r)) = g_port_type s"
  "g_port_status (snd (mars_page_read s p r)) = g_port_status s"
  "speed (snd (mars_page_read s p r)) = speed s"
  "duplex (snd (mars_page_read s p r)) = duplex s"
  "pause (snd (mars_page_read s p r)) = pause s"
  "asym_pause (snd (mars_page_read s p r)) = asym_pause s"
  by (simp_all add: mars_page_read_def split_beta Let_def)

lemma page_write_host [simp]:
  "g_port_type (snd (mars_page_write s p r v)) = g_port_type s"
  "g_port_status (snd (mars_page_write s p r v)) = g_port_status s"
  "speed (snd (mars_page_write s p r v)) = speed s"
  "duplex (snd (mars_page_write s p r v)) = duplex s"
  "pause (snd (mars_page_write s p r v)) = pause s"
  "asym_pause (snd (mars_page_write s p r v)) = asym_pause s"
  by (simp_all add: mars_page_write_def split_beta Let_def)

lemma page_ext_write_host [simp]:
  "g_port_type (snd (mars_page_ext_write s p r v)) = g_port_type s"
  "g_port_status (snd (mars_page_ext_write s p r v)) = g_port_status s"
  by (simp_all add: mars_page_ext_write_def split_beta Let_def)

section \<open>Status decoding\<close>

lemma status_bits:
  "((x::int) AND 0x8000 \<noteq> 0) = bit x 15"
  "((x::int) AND 0x4000 \<noteq> 0) = bit x 14"
  "((x::int) AND 0x2000 \<noteq> 0) = bit x 13"
  "((x::int) AND 0x0400 \<noteq> 0) = bit x 10"
  "((x::int) AND 0x0800 \<noteq> 0) = bit x 11"
  using int_and_bit [of x 15] int_and_bit [of x 14] int_and_bit [of x 13]
    int_and_bit [of x 10] int_and_bit [of x 11]
  by simp_all

lemma duplex_half_not_full: "DUPLEX_HALF \<noteq> DUPLEX_FULL"
  by (simp add: DUPLEX_HALF_def DUPLEX_FULL_def)

lemma decode_later_revision:
  assumes "mars_update_link s = (ret, s1)" and "0 \<le> ret"
    and "page = (if g_port_status s1 \<noteq> 0 then CTC_SDS_REG_SPACE else CTC_PHY_REG_SPACE)"
    and "mars_page_read
           (s1\<lparr>speed := SPEED_10, duplex := DUPLEX_HALF, pause := 0, asym_pause := 0\<rparr>)
           page CTC_MARS_SSREG = (val, s3)"
    and "0 \<le> val"
    and "mars_page_read s3 page MII_LPA = (lpa, s4)" and "0 \<le> lpa"
  shows "fst (mars_read_status s) = 0 \<and> status_decoded val lpa (snd (mars_read_status s))"
proof -
  have "s3 = snd (mars_page_read
           (s1\<lparr>speed := SPEED_10, duplex := DUPLEX_HALF, pause := 0, asym_pause := 0\<rparr>)
           page CTC_MARS_SSREG)"
    using assms(4) by simp
  then have f3: "speed s3 = SPEED_10" "duplex s3 = DUPLEX_HALF" "pause s3 = 0"
    "asym_pause s3 = 0"
    by simp_all
  have "s4 = snd (mars_page_read s3 page MII_LPA)"
    using assms(6) by simp
  with f3 have f4: "speed s4 = SPEED_10" "duplex s4 = DUPLEX_HALF" "pause s4 = 0"
    "asym_pause s4 = 0"
    by simp_all
  show ?thesis
    using assms f4 duplex_half_not_full
    by (simp add: mars_read_status_def status_decoded_def Let_def status_bits
          LPA_PAUSE_CAP_def LPA_PAUSE_ASYM_def)
qed

lemma decode_earlier_revision:
  assumes "genphy_update_link s = (0, s1)"
    and "phy_read (s1\<lparr>speed := SPEED_10, duplex := DUPLEX_HALF, pause := 0, asym_pause := 0\<rparr>)
           CTC_MARS_SSREG = (val, s3)"
    and "0 \<le> val"
    and "phy_read s3 MII_LPA = (lpa, s4)" and "0 \<le> lpa"
  shows "fst (mars_read_status_v1 genphy_update_link s) = 0 \<and>
         status_decoded val lpa (snd (mars_read_status_v1 genphy_update_link s))"
proof -
  have "s3 = snd (phy_read
           (s1\<lparr>speed := SPEED_10, duplex := DUPLEX_HALF, pause := 0, asym_pause := 0\<rparr>)
           CTC_MARS_SSREG)"
    using assms(2) by simp
  then have f3: "speed s3 = SPEED_10" "duplex s3 = DUPLEX_HALF" "pause s3 = 0"
    "asym_pause s3 = 0"
    by simp_all
  have "s4 = snd (phy_read s3 MII_LPA)"
    using assms(4) by simp
  with f3 have f4: "speed s4 = SPEED_10" "duplex s4 = DUPLEX_HALF" "pause s4 = 0"
    "asym_pause s4 = 0"
    by simp_all
  show ?thesis
    using assms f4 duplex_half_not_full
    by (simp add: mars_read_status_v1_def status_decoded_def Let_def status_bits
          LPA_PAUSE_CAP_def LPA_PAUSE_ASYM_def)
qed

text \<open>
  C5.  When the link update succeeds and the chip status register and the
  link-partner ability are read as \<open>val\<close> and \<open>lpa\<close>, \<open>mars_read_status\<close> returns 0
  and leaves speed, duplex, pause and asymmetric pause as \<open>status_decoded\<close> says:
  the defaults 10, half, 0, 0, overridden by bit 15 (1000, full, whatever bit 13 is),
  else bit 14 (100, full exactly when bit 13 is set), else bit 13 (full), with the
  pause bits taken from \<open>lpa\<close> only when the duplex is full.  The later revision reads
  in the space of the active medium, the earlier one in the selected space.
\<close>

theorem read_status_decodes:
  "(mars_update_link s = (ret, s1) \<and> 0 \<le> ret \<and>
    page = (if g_port_status s1 \<noteq> 0 then CTC_SDS_REG_SPACE else CTC_PHY_REG_SPACE) \<and>
    mars_page_read
      (s1\<lparr>speed := SPEED_10, duplex := DUPLEX_HALF, pause := 0, asym_pause := 0\<rparr>)
      page CTC_MARS_SSREG = (val, s3) \<and> 0 \<le> val \<and>
    mars_page_read s3 page MII_LPA = (lpa, s4) \<and> 0 \<le> lpa \<longrightarrow>
      fst (mars_read_status s) = 0 \<and> status_decoded val lpa (snd (mars_read_status s))) \<and>
   (genphy_update_link s = (0, t1) \<and>
    phy_read (t1\<lparr>speed := SPEED_10, duplex := DUPLEX_HALF, pause := 0, asym_pause := 0\<rparr>)
      CTC_MARS_SSREG = (val', t3) \<and> 0 \<le> val' \<and>
    phy_read t3 MII_LPA = (lpa', t4) \<and> 0 \<le> lpa' \<longrightarrow>
      fst (mars_read_status_v1 genphy_update_link s) = 0 \<and>
      status_decoded val' lpa' (snd (mars_read_status_v1 genphy_update_link s)))"
  using decode_later_revision [of s ret s1 page val s3 lpa s4]
    decode_earlier_revision [of genphy_update_link s t1 val' t3 lpa' t4]
  by blast

theorem read_status_decodes_witness:
  "0 \<le> fst (mars_update_link combo_both_up) \<and>
   fst (mars_read_status combo_both_up) = 0 \<and>
   speed (snd (mars_read_status combo_both_up)) = SPEED_1000 \<and>
   duplex (snd (mars_read_status combo_both_up)) = DUPLEX_FULL \<and>
   pause (snd (mars_read_status combo_both_up)) = 1 \<and>
   asym_pause (snd (mars_read_status combo_both_up)) = 0 \<and>
   fst (mars_read_status_v1 link_always_up combo_both_up) = 0 \<and>
   speed (snd (mars_read_status_v1 link_always_up combo_both_up)) = SPEED_100 \<and>
   duplex (snd (mars_read_status_v1 link_always_up combo_both_up)) = DUPLEX_FULL \<and>
   pause (snd (mars_read_status_v1 link_always_up combo_both_up)) = 0 \<and>
   asym_pause (snd (mars_read_status_v1 link_always_up combo_both_up)) = 1"
proof -
  define s1 where "s1 = snd (mars_update_link combo_both_up)"
  define page where
    "page = (if g_port_status s1 \<noteq> 0 then CTC_SDS_REG_SPACE else CTC_PHY_REG_SPACE)"
  define s2 where
    "s2 = s1\<lparr>speed := SPEED_10, duplex := DUPLEX_HALF, pause := 0, asym_pause := 0\<rparr>"
  define s3 where "s3 = snd (mars_page_read s2 page CTC_MARS_SSREG)"
  define s4 where "s4 = snd (mars_page_read s3 page MII_LPA)"
  define t1 where "t1 = combo_both_up\<lparr>link := 1\<rparr>"
  define t2 where
    "t2 = t1\<lparr>speed := SPEED_10, duplex := DUPLEX_HALF, pause := 0, asym_pause := 0\<rparr>"
  define t3 where "t3 = snd (phy_read t2 CTC_MARS_SSREG)"
  define t4 where "t4 = snd (phy_read t3 MII_LPA)"
  have a: "mars_update_link combo_both_up = (fst (mars_update_link combo_both_up), s1)"
    by (simp add: s1_def)
  have b: "0 \<le> fst (mars_update_link combo_both_up)" by code_simp
  have "fst (mars_page_read s2 page CTC_MARS_SSREG) = 0x8000"
    unfolding s2_def page_def s1_def by code_simp
  then have c: "mars_page_read s2 page CTC_MARS_SSREG = (0x8000, s3)"
    by (simp add: s3_def prod_eq_iff)
  have "fst (mars_page_read s3 page MII_LPA) = 0x0400"
    unfolding s3_def s2_def page_def s1_def by code_simp
  then have d: "mars_page_read s3 page MII_LPA = (0x0400, s4)"
    by (simp add: s4_def prod_eq_iff)
  have e: "link_always_up combo_both_up = (0, t1)"
    by (simp add: link_always_up_def t1_def)
  have "fst (phy_read t2 CTC_MARS_SSREG) = 0x6000"
    unfolding t2_def t1_def by code_simp
  then have f: "phy_read t2 CTC_MARS_SSREG = (0x6000, t3)"
    by (simp add: t3_def prod_eq_iff)
  have "fst (phy_read t3 MII_LPA) = 0x0800"
    unfolding t3_def t2_def t1_def by code_simp
  then have g: "phy_read t3 MII_LPA = (0x0800, t4)"
    by (simp add: t4_def prod_eq_iff)
  have "fst (mars_read_status combo_both_up) = 0 \<and>
        status_decoded 0x8000 0x0400 (snd (mars_read_status combo_both_up)) \<and>
        fst (mars_read_status_v1 link_always_up combo_both_up) = 0 \<and>
        status_decoded 0x6000 0x0800 (snd (mars_read_status_v1 link_always_up combo_both_up))"
    using read_status_decodes [where s = combo_both_up
        and ret = "fst (mars_update_link combo_both_up)" and ?s1.0 = s1 and page = page
        and val = "0x8000" and ?s3.0 = s3 and lpa = "0x0400" and ?s4.0 = s4
        and genphy_update_link = link_always_up and ?t1.0 = t1 and val' = "0x6000"
        and ?t3.0 = t3 and lpa' = "0x0800" and ?t4.0 = t4]
      a b page_def c [unfolded s2_def] d e f [unfolded t2_def] g
    by simp
  with b show ?thesis
    by (simp add: status_decoded_def duplex_half_not_full)
qed

section \<open>Link polling on a combo port\<close>

lemma bmsr_lstatus: "(uint (w::16 word) AND BMSR_LSTATUS = 0) = (\<not> bit w 2)"
proof -
  have "(uint w AND 4 \<noteq> 0) = bit (uint w) 2"
    using int_and_bit [of "uint w" 2] by simp
  then have "(uint w AND 4 = 0) = (\<not> bit w 2)"
    by (auto simp add: bit_uint_iff)
  then show ?thesis by (simp add: BMSR_LSTATUS_def)
qed

text \<open>
  C4.  On a combo port whose copper status register has the link bit (bit 2) set,
  whatever the fiber status register holds, a link poll on a quiet bus returns 0
  with the link up, the active medium UTP (copper) and the primary space selected,
  after exactly the sixteen bus transactions of the two copper reads and the select:
  the fiber status register is not read.
\<close>

theorem update_link_copper_first:
  assumes "g_port_type s = MARS_PORT_TYPE_COMBO" and "bus_ok 16 (faults s)"
    and "bit (regs s (PRIMARY, MII_BMSR)) 2"
  shows "fst (mars_update_link s) = 0 \<and>
    (let s' = snd (mars_update_link s) in
       g_port_status s' = MARS_PORT_TYPE_UTP \<and> link s' = 1 \<and> cur_bank s' = PRIMARY \<and>
       faults s' = drop 16 (faults s) \<and> length (new_accesses s s') = 16 \<and>
       Read SECONDARY MII_BMSR \<notin> set (new_accesses s s'))"
  using assms
  by (simp add: mars_update_link_def page_read_ok select_ok MII_BMSR_def Let_def
        CTC_PHY_REG_SPACE_def page_bank_def page_val_def bmsr_lstatus new_accesses_def
        drop_numeral_tl drop_Suc cur_bank_def MARS_PORT_TYPE_COMBO_def MARS_PORT_TYPE_UTP_def)

theorem update_link_copper_first_witness:
  "g_port_type combo_both_up = MARS_PORT_TYPE_COMBO \<and> bus_ok 16 (faults combo_both_up) \<and>
   bit (regs combo_both_up (PRIMARY, MII_BMSR)) 2 \<and>
   bit (regs combo_both_up (SECONDARY, MII_BMSR)) 2 \<and>
   g_port_status combo_both_up = MARS_PORT_TYPE_FIBER \<and>
   fst (mars_update_link combo_both_up) = 0 \<and>
   g_port_status (snd (mars_update_link combo_both_up)) = MARS_PORT_TYPE_UTP \<and>
   cur_bank (snd (mars_update_link combo_both_up)) = PRIMARY \<and>
   Read SECONDARY MII_BMSR
     \<notin> set (new_accesses combo_both_up (snd (mars_update_link combo_both_up)))"
proof -
  have a: "g_port_type combo_both_up = MARS_PORT_TYPE_COMBO"
    by (simp add: combo_both_up_def chip0_def)
  have b: "bus_ok 16 (faults combo_both_up)"
    by (simp add: combo_both_up_def chip0_def next_fault_def)
  have c: "bit (regs combo_both_up (PRIMARY, MII_BMSR)) 2"
    by (simp add: combo_both_up_def chip0_def MII_BMSR_def)
  have d: "bit (regs combo_both_up (SECONDARY, MII_BMSR)) 2"
    by (simp add: combo_both_up_def chip0_def MII_BMSR_def)
  have e: "g_port_status combo_both_up = MARS_PORT_TYPE_FIBER"
    by (simp add: combo_both_up_def chip0_def)
  from update_link_copper_first [OF a b c] a b c d e show ?thesis
    unfolding Let_def by blast
qed

section \<open>The active medium\<close>

lemma setup_forced_media [simp]:
  "g_port_status (snd (mars_setup_forced s)) = g_port_status s"
  by (simp add: mars_setup_forced_def split_beta Let_def split: option.split)

lemma restart_aneg_media [simp]:
  "g_port_status (snd (mars_restart_aneg s)) = g_port_status s"
  by (simp add: mars_restart_aneg_def split_beta Let_def split: option.split)

lemma config_advert_media [simp]:
  "g_port_status (snd (mars_config_advert s)) = g_port_status s"
  by (simp add: mars_config_advert_def split_beta Let_def split: option.split)

lemma config_aneg_media [simp]:
  "g_port_status (snd (mars1s_config_aneg s)) = g_port_status s"
  by (simp add: mars1s_config_aneg_def split_beta Let_def split: option.split)

lemma wol_en_cfg_media [simp]:
  "g_port_status (snd (mars_wol_en_cfg s cfg)) = g_port_status s"
  by (simp add: mars_wol_en_cfg_def split_beta Let_def)

lemma get_wol_media [simp]:
  "g_port_status (snd (mars_get_wol s wol)) = g_port_status s"
  by (simp add: mars_get_wol_def split_beta Let_def)

lemma set_wol_media [simp]:
  "g_port_status (snd (mars_set_wol s wol)) = g_port_status s"
  by (simp add: mars_set_wol_def split_beta Let_def)

lemma get_port_type_media: "media_ok s \<Longrightarrow> media_ok (snd (mars_get_port_type s))"
  by (simp add: mars_get_port_type_def media_ok_def split_beta Let_def)

lemma update_link_media: "media_ok s \<Longrightarrow> media_ok (snd (mars_update_link s))"
  by (auto simp add: mars_update_link_def media_ok_def split_beta Let_def
        split: option.split if_splits)

lemma read_status_media:
  "g_port_status (snd (mars_read_status s)) = g_port_status (snd (mars_update_link s))"
  by (simp add: mars_read_status_def split_beta Let_def)

text \<open>
  C10.  In every state the driver can reach, the active medium \<open>g_port_status\<close> is
  UTP or FIBER and never COMBO: \<open>mars_get_port_type\<close> and \<open>mars_update_link\<close>, the
  two writers, store only those two values, and nothing else writes it.  Hence the
  page \<open>mars_read_status\<close> chooses by testing the variable for non-zero is the
  secondary (SerDes) space exactly when the active medium is FIBER and the primary
  (PHY) space when it is UTP.
\<close>

theorem active_media_never_combo:
  assumes "reachable s"
  shows "media_ok s \<and> g_port_status s \<noteq> MARS_PORT_TYPE_COMBO \<and>
         page_bank (if g_port_status s \<noteq> 0 then CTC_SDS_REG_SPACE else CTC_PHY_REG_SPACE)
           = (if g_port_status s = MARS_PORT_TYPE_FIBER then SECONDARY else PRIMARY)"
proof -
  from assms have "media_ok s"
  proof (induction rule: reachable.induct)
    case (boot s)
    then show ?case by (simp add: media_ok_def MARS_PORT_TYPE_UTP_def)
  next
    case (env s s')
    then show ?case by (simp add: media_ok_def)
  next
    case (get_port_type s)
    then show ?case by (simp add: get_port_type_media)
  next
    case (update_link s)
    then show ?case by (simp add: update_link_media)
  next
    case (read_status s)
    then have "media_ok (snd (mars_update_link s))" by (simp add: update_link_media)
    then show ?case by (simp add: media_ok_def read_status_media)
  qed (simp_all add: media_ok_def)
  then show ?thesis
    by (auto simp add: media_ok_def MARS_PORT_TYPE_UTP_def MARS_PORT_TYPE_FIBER_def
          MARS_PORT_TYPE_COMBO_def page_bank_def CTC_SDS_REG_SPACE_def CTC_PHY_REG_SPACE_def)
qed

theorem active_media_never_combo_witness:
  "reachable (snd (mars_update_link (snd (mars_get_port_type chip_cfg_fiber)))) \<and>
   g_port_status (snd (mars_update_link (snd (mars_get_port_type chip_cfg_fiber))))
     = MARS_PORT_TYPE_FIBER \<and>
   g_port_status (snd (mars_update_link (snd (mars_get_port_type chip_cfg_fiber))))
     \<noteq> MARS_PORT_TYPE_COMBO \<and>
   page_bank (if g_port_status (snd (mars_update_link (snd (mars_get_port_type chip_cfg_fiber))))
                 \<noteq> 0
              then CTC_SDS_REG_SPACE else CTC_PHY_REG_SPACE) = SECONDARY"
proof -
  have "g_port_status chip_cfg_fiber = 0"
    by (simp add: chip_cfg_fiber_def chip0_def)
  then have r: "reachable (snd (mars_update_link (snd (mars_get_port_type chip_cfg_fiber))))"
    by (intro reachable.update_link reachable.get_port_type reachable.boot)
  have g: "g_port_status (snd (mars_update_link (snd (mars_get_port_type chip_cfg_fiber))))
             = MARS_PORT_TYPE_FIBER"
    by code_simp
  from active_media_never_combo [OF r] r g show ?thesis
    by simp
qed

section \<open>Forced mode on a copper port\<close>

text \<open>
  C2.  \<open>mars1s_config_aneg\<close> on the copper port \<open>utp_forced\<close>, where
  autonegotiation is not enabled.  The forced setup alone leaves \<open>BMCR = 0x2100\<close>
  (100 Mbit/s, full duplex, autonegotiation off).  The whole function does not stop
  there: it goes on to \<open>mars_config_advert\<close>, which writes the gigabit advertisement
  register, finds the advertisement unchanged, reads back a \<open>BMCR\<close> with
  autonegotiation off, and so restarts autonegotiation: it returns 0 with
  \<open>BMCR = 0x3300\<close>, autonegotiation enabled and restarted.
\<close>

theorem config_aneg_forced_copper_restarts_autoneg:
  "g_port_type utp_forced = MARS_PORT_TYPE_UTP \<and> autoneg utp_forced \<noteq> AUTONEG_ENABLE \<and>
   fst (mars_setup_forced utp_forced) = 0 \<and>
   regs (snd (mars_setup_forced utp_forced)) (PRIMARY, MII_BMCR) = 0x2100 \<and>
   fst (mars_config_advert (snd (mars_setup_forced utp_forced))) = 0 \<and>
   fst (mars1s_config_aneg utp_forced) = 0 \<and>
   regs (snd (mars1s_config_aneg utp_forced)) (PRIMARY, MII_BMCR) = 0x3300 \<and>
   uint (regs (snd (mars1s_config_aneg utp_forced)) (PRIMARY, MII_BMCR)) AND BMCR_ANENABLE \<noteq> 0 \<and>
   Write PRIMARY MII_CTRL1000 0x0200 \<in> set (trace (snd (mars1s_config_aneg utp_forced)))"
  by code_simp

section \<open>The two restores\<close>

lemma set_wol_v1_bank:
  assumes "bus_ok 18 (faults s)" and "ext s 0xa000 = 0x2"
  shows "fst (mars_set_wol_v1 s wol) = 0 \<and> cur_bank (snd (mars_set_wol_v1 s wol)) = PRIMARY"
proof (cases "wolopts wol AND WAKE_MAGIC \<noteq> 0")
  case True
  with assms show ?thesis
    by (simp add: mars_set_wol_v1_def ext_read_ok select_ok phy_read_ok phy_write_ok
        wol_en_cfg_ok ext_write_ok CTC_MARS_PAGE_REG_def
        CTC_MARS_INTR_REG_def CTC_MARS_MAGIC_PACKET_MAC_ADDR2_def
        CTC_MARS_MAGIC_PACKET_MAC_ADDR1_def CTC_MARS_MAGIC_PACKET_MAC_ADDR0_def
        drop_numeral_tl drop_Suc Let_def cur_bank_def page_val_def)
next
  case False
  with assms show ?thesis
    by (simp add: mars_set_wol_v1_def ext_read_ok select_ok
        wol_en_cfg_ok CTC_MARS_PAGE_REG_def
        drop_numeral_tl drop_Suc Let_def cur_bank_def page_val_def)
qed

text \<open>
  C7.  Called on a quiet bus with the page register reading \<open>0x2\<close> (the secondary
  space selected), the earlier \<open>mars_set_wol\<close>, whose last step is
  \<open>mars_select_reg_space (oldpage & 0x1)\<close>, returns 0 with the primary space selected,
  whatever the request; \<open>mars_page_read\<close>, \<open>mars_page_write\<close> and
  \<open>mars_page_ext_write\<close>, whose last step is \<open>mars_select_reg_space (oldpage & 0x2)\<close>,
  return with the secondary space selected, whatever the page and register.  The
  two restores select different spaces from the same prior page-register value.
\<close>

theorem restore_masks_differ:
  assumes "bus_ok 18 (faults s)" and "ext s 0xa000 = 0x2"
  shows "cur_bank s = SECONDARY \<and>
         fst (mars_set_wol_v1 s wol) = 0 \<and>
         cur_bank (snd (mars_set_wol_v1 s wol)) = PRIMARY \<and>
         cur_bank (snd (mars_page_read s page regnum)) = SECONDARY \<and>
         cur_bank (snd (mars_page_write s page regnum v)) = SECONDARY \<and>
         cur_bank (snd (mars_page_ext_write s page regnum v)) = SECONDARY \<and>
         cur_bank (snd (mars_set_wol_v1 s wol)) \<noteq> cur_bank (snd (mars_page_read s page regnum))"
proof -
  have b: "cur_bank s = SECONDARY"
    using assms(2) by (simp add: cur_bank_def)
  have r: "bus_ok 4 (faults s) \<longrightarrow> bus_ok 2 (drop 5 (faults s))"
    using assms(1) by (simp add: drop_numeral_tl drop_Suc)
  have e: "bus_ok 4 (faults s) \<longrightarrow>
      bus_ok 2 (drop (if next_fault (drop 4 (faults s)) < 0 then 5 else 6) (faults s))"
    using assms(1) by (simp add: drop_numeral_tl drop_Suc)
  from b set_wol_v1_bank [OF assms] page_read_restores [OF r] page_write_restores [OF r]
    page_ext_write_restores [OF e]
  show ?thesis by simp
qed

theorem restore_masks_differ_witness:
  "bus_ok 18 (faults chip_sds) \<and> ext chip_sds 0xa000 = 0x2 \<and>
   cur_bank chip_sds = SECONDARY \<and>
   fst (mars_set_wol_v1 chip_sds wol_magic) = 0 \<and>
   cur_bank (snd (mars_set_wol_v1 chip_sds wol_magic)) = PRIMARY \<and>
   cur_bank (snd (mars_page_read chip_sds CTC_PHY_REG_SPACE MII_BMSR)) = SECONDARY \<and>
   cur_bank (snd (mars_page_write chip_sds CTC_PHY_REG_SPACE MII_BMCR 0)) = SECONDARY"
proof -
  have h: "bus_ok 18 (faults chip_sds)"
    by (simp add: chip_sds_def chip0_def next_fault_def)
  have p: "ext chip_sds 0xa000 = 0x2"
    by (simp add: chip_sds_def chip0_def)
  from restore_masks_differ [OF h p, of wol_magic CTC_PHY_REG_SPACE MII_BMSR]
    restore_masks_differ [OF h p, of wol_magic CTC_PHY_REG_SPACE MII_BMCR 0] h p
  show ?thesis by blast
qed

end
